theory Spec2Isabelle
  imports Complex_Main
begin

section \<open>JavaScript values used by the route handlers\<close>

text \<open>
  Strings are lists of code units below 256 (\<^typ>\<open>char\<close>); code points above
  U+00FF are outside the model. A query parameter or a header that is not there is
  \<^term>\<open>None\<close> (\<open>null\<close> in the code). In the bodies of member and transaction
  requests an optional field is \<^term>\<open>None\<close> when the key is absent or \<open>null\<close>: the
  handlers only test these fields for truthiness, which does not tell the two apart. The
  pricing plan handlers test \<open>!== undefined\<close>, so their bodies keep the difference
  (type \<open>field\<close> below), and so do values read from the store or from a token, where
  \<open>undefined\<close> is \<^term>\<open>None\<close> and \<open>null\<close> is a value.
\<close>

subsection \<open>Numbers\<close>

text \<open>
  A JavaScript number is an IEEE double. The handlers only do integer arithmetic on
  page numbers, page sizes and row counts, and one division followed by \<open>Math.ceil\<close>.
  The model keeps the special values (\<open>NaN\<close>, the infinities, negative zero) and
  computes finite values exactly. A double does the same as long as the integers involved
  stay below \<open>2^53\<close> in magnitude; above that bound the code rounds and the model does
  not, so every property below that reads these numbers states the bound. The quotient
  \<open>count / limit\<close> is rounded by the code even below the bound, but by less than the
  distance of the quotient to the next integer, so \<open>Math.ceil\<close> of it is the ceiling
  of the exact quotient. \<^term>\<open>Fin 0\<close> is positive zero.
\<close>

datatype jsnum = NaN | PosInf | NegInf | NegZero | Fin rat

fun is_inf :: "jsnum \<Rightarrow> bool" where
  "is_inf PosInf = True"
| "is_inf NegInf = True"
| "is_inf _ = False"

fun is_zero :: "jsnum \<Rightarrow> bool" where
  "is_zero NegZero = True"
| "is_zero (Fin r) = (r = 0)"
| "is_zero _ = False"

text \<open>The sign bit.\<close>

fun is_neg :: "jsnum \<Rightarrow> bool" where
  "is_neg NegInf = True"
| "is_neg NegZero = True"
| "is_neg (Fin r) = (r < 0)"
| "is_neg _ = False"

text \<open>The value of a finite number.\<close>

fun fin_val :: "jsnum \<Rightarrow> rat" where
  "fin_val (Fin r) = r"
| "fin_val _ = 0"

definition signed_inf :: "bool \<Rightarrow> jsnum" where
  "signed_inf negative = (if negative then NegInf else PosInf)"

definition signed_zero :: "bool \<Rightarrow> jsnum" where
  "signed_zero negative = (if negative then NegZero else Fin 0)"

fun js_neg :: "jsnum \<Rightarrow> jsnum" where
  "js_neg NaN = NaN"
| "js_neg PosInf = NegInf"
| "js_neg NegInf = PosInf"
| "js_neg NegZero = Fin 0"
| "js_neg (Fin r) = (if r = 0 then NegZero else Fin (- r))"

text \<open>\<open>x + y\<close>: opposite infinities give \<open>NaN\<close>; a zero sum is \<open>-0\<close> only when both
  operands are \<open>-0\<close>.\<close>

definition js_add :: "jsnum \<Rightarrow> jsnum \<Rightarrow> jsnum" where
  "js_add x y =
     (if x = NaN \<or> y = NaN then NaN
      else if is_inf x \<and> is_inf y then (if x = y then x else NaN)
      else if is_inf x then x
      else if is_inf y then y
      else if x = NegZero \<and> y = NegZero then NegZero
      else Fin (fin_val x + fin_val y))"

definition js_sub :: "jsnum \<Rightarrow> jsnum \<Rightarrow> jsnum" where
  "js_sub x y = js_add x (js_neg y)"

definition js_mul :: "jsnum \<Rightarrow> jsnum \<Rightarrow> jsnum" where
  "js_mul x y =
     (if x = NaN \<or> y = NaN then NaN
      else if (is_inf x \<and> is_zero y) \<or> (is_zero x \<and> is_inf y) then NaN
      else if is_inf x \<or> is_inf y then signed_inf (is_neg x \<noteq> is_neg y)
      else if is_zero x \<or> is_zero y then signed_zero (is_neg x \<noteq> is_neg y)
      else Fin (fin_val x * fin_val y))"

definition js_div :: "jsnum \<Rightarrow> jsnum \<Rightarrow> jsnum" where
  "js_div x y =
     (if x = NaN \<or> y = NaN then NaN
      else if (is_inf x \<and> is_inf y) \<or> (is_zero x \<and> is_zero y) then NaN
      else if is_inf x \<or> is_zero y then signed_inf (is_neg x \<noteq> is_neg y)
      else if is_inf y \<or> is_zero x then signed_zero (is_neg x \<noteq> is_neg y)
      else Fin (fin_val x / fin_val y))"

text \<open>\<open>Math.ceil\<close>: the special values are returned as they are, and a value in
  \<open>(-1, 0)\<close> rounds to \<open>-0\<close>.\<close>

fun Math_ceil :: "jsnum \<Rightarrow> jsnum" where
  "Math_ceil (Fin r) = (if - 1 < r \<and> r < 0 then NegZero else Fin (of_int \<lceil>r\<rceil>))"
| "Math_ceil x = x"

text \<open>\<open>x < y\<close>: false when either side is \<open>NaN\<close>; the two zeros are equal.\<close>

definition js_lt :: "jsnum \<Rightarrow> jsnum \<Rightarrow> bool" where
  "js_lt x y =
     (if x = NaN \<or> y = NaN then False
      else if x = PosInf \<or> y = NegInf then False
      else if x = NegInf \<or> y = PosInf then True
      else fin_val x < fin_val y)"

definition js_gt :: "jsnum \<Rightarrow> jsnum \<Rightarrow> bool" where
  "js_gt x y = js_lt y x"

text \<open>\<open>JSON.stringify\<close> of a number: \<open>NaN\<close> and the infinities become \<open>null\<close>,
  negative zero becomes \<open>0\<close>.\<close>

fun json_number :: "jsnum \<Rightarrow> rat option" where
  "json_number (Fin r) = Some r"
| "json_number NegZero = Some 0"
| "json_number _ = None"

subsection \<open>\<open>parseInt\<close> with no radix argument\<close>

text \<open>White space and line terminators among the code units below 256:
  TAB, LF, VT, FF, CR, SP and NBSP. The regular expression class \<open>\s\<close> is the same set.\<close>

definition js_whitespace :: "char \<Rightarrow> bool" where
  "js_whitespace c = (c \<in> set [CHR 0x09, CHR 0x0A, CHR 0x0B, CHR 0x0C, CHR 0x0D, CHR 0x20, CHR 0xA0])"

definition digit_chars :: string where
  "digit_chars = ''0123456789''"

definition hex_chars :: string where
  "hex_chars = ''0123456789abcdefABCDEF''"

text \<open>The value of a digit: \<open>0\<close>..\<open>9\<close>, then \<open>a\<close>..\<open>f\<close> and \<open>A\<close>..\<open>F\<close> as 10..15.\<close>

fun index_of :: "char \<Rightarrow> string \<Rightarrow> nat option" where
  "index_of c [] = None"
| "index_of c (d # ds) = (if c = d then Some 0 else map_option Suc (index_of c ds))"

definition digit_value :: "char \<Rightarrow> nat" where
  "digit_value c =
     (case index_of c ''0123456789abcdef'' of
        Some n \<Rightarrow> n
      | None \<Rightarrow> (case index_of c ''ABCDEF'' of Some n \<Rightarrow> 10 + n | None \<Rightarrow> 0))"

definition digits_value :: "nat \<Rightarrow> string \<Rightarrow> nat" where
  "digits_value radix ds = foldl (\<lambda>acc c. acc * radix + digit_value c) 0 ds"

text \<open>
  \<open>parseInt(s)\<close>: skip leading white space, read an optional sign, switch to radix 16
  after a \<open>0x\<close> or \<open>0X\<close> prefix, and read the longest prefix of digits. No digit gives
  \<open>NaN\<close>; what follows the digits is ignored; \<open>-0\<close> keeps its sign.
\<close>

definition parseInt :: "string \<Rightarrow> jsnum" where
  "parseInt s =
     (let s1 = dropWhile js_whitespace s;
          negative = (take 1 s1 = ''-'');
          s2 = (if take 1 s1 = ''-'' \<or> take 1 s1 = ''+'' then drop 1 s1 else s1);
          hex = (take 2 s2 = ''0x'' \<or> take 2 s2 = ''0X'');
          s3 = (if hex then drop 2 s2 else s2);
          radix = (if hex then 16 else 10);
          z = takeWhile (\<lambda>c. c \<in> set (if hex then hex_chars else digit_chars)) s3;
          n = digits_value radix z
      in if z = [] then NaN
         else if n = 0 \<and> negative then NegZero
         else Fin (if negative then - of_nat n else of_nat n))"

subsection \<open>Truthiness and defaults\<close>

text \<open>A string-or-null value is falsy when it is \<open>null\<close> or the empty string.\<close>

definition truthy_str :: "string option \<Rightarrow> bool" where
  "truthy_str v = (case v of None \<Rightarrow> False | Some s \<Rightarrow> s \<noteq> [])"

text \<open>A number-or-undefined value is falsy when it is \<open>undefined\<close> or zero
  (a JSON body cannot hold \<open>NaN\<close>).\<close>

definition truthy_num :: "rat option \<Rightarrow> bool" where
  "truthy_num v = (case v of None \<Rightarrow> False | Some r \<Rightarrow> r \<noteq> 0)"

text \<open>A key of a JSON body where the code tells \<open>undefined\<close> from \<open>null\<close>: the key is
  absent, or holds \<open>null\<close>, or holds a value.\<close>

datatype 'a field = Absent | Null | Given 'a

fun field_truthy_str :: "string field \<Rightarrow> bool" where
  "field_truthy_str (Given s) = (s \<noteq> [])"
| "field_truthy_str _ = False"

fun field_truthy_num :: "rat field \<Rightarrow> bool" where
  "field_truthy_num (Given r) = (r \<noteq> 0)"
| "field_truthy_num _ = False"

text \<open>\<open>v <= 0\<close> on such a key: \<open>undefined\<close> converts to \<open>NaN\<close> and the comparison is
  false; \<open>null\<close> converts to \<open>0\<close> and the comparison is true.\<close>

fun field_le_zero :: "rat field \<Rightarrow> bool" where
  "field_le_zero Absent = False"
| "field_le_zero Null = True"
| "field_le_zero (Given r) = (r \<le> 0)"

text \<open>\<open>v || d\<close> on strings.\<close>

definition or_default :: "string option \<Rightarrow> string \<Rightarrow> string" where
  "or_default v d = (case v of None \<Rightarrow> d | Some s \<Rightarrow> if s = [] then d else s)"

section \<open>Regular expressions\<close>

text \<open>
  The format checks are regular expression literals applied with \<open>test\<close>. Each is
  anchored by \<open>^\<close> and \<open>$\<close> and has no multiline flag, so \<open>test\<close> asks whether the
  whole string matches. The matcher below takes derivatives character by character.
\<close>

datatype rexp =
    Zero
  | One
  | Atom "char \<Rightarrow> bool"
  | Alt rexp rexp
  | Times rexp rexp
  | Star rexp

fun nullable :: "rexp \<Rightarrow> bool" where
  "nullable Zero = False"
| "nullable One = True"
| "nullable (Atom p) = False"
| "nullable (Alt r s) = (nullable r \<or> nullable s)"
| "nullable (Times r s) = (nullable r \<and> nullable s)"
| "nullable (Star r) = True"

fun deriv :: "rexp \<Rightarrow> char \<Rightarrow> rexp" where
  "deriv Zero c = Zero"
| "deriv One c = Zero"
| "deriv (Atom p) c = (if p c then One else Zero)"
| "deriv (Alt r s) c = Alt (deriv r c) (deriv s c)"
| "deriv (Times r s) c =
     (if nullable r then Alt (Times (deriv r c) s) (deriv s c) else Times (deriv r c) s)"
| "deriv (Star r) c = Times (deriv r c) (Star r)"

definition regex_test :: "rexp \<Rightarrow> string \<Rightarrow> bool" where
  "regex_test r s = nullable (foldl deriv r s)"

text \<open>The language of a regular expression, against which the matcher is checked
  below (\<open>regex_test_lang\<close>).\<close>

inductive_set repeats :: "string set \<Rightarrow> string set" for L :: "string set" where
  repeats_none: "[] \<in> repeats L"
| repeats_more: "u \<in> L \<Longrightarrow> v \<in> repeats L \<Longrightarrow> u @ v \<in> repeats L"

fun lang :: "rexp \<Rightarrow> string set" where
  "lang Zero = {}"
| "lang One = {[]}"
| "lang (Atom p) = {[c] | c. p c}"
| "lang (Alt r s) = lang r \<union> lang s"
| "lang (Times r s) = {u @ v | u v. u \<in> lang r \<and> v \<in> lang s}"
| "lang (Star r) = repeats (lang r)"

text \<open>\<open>r+\<close>, \<open>r?\<close>, \<open>r{n}\<close> and \<open>r{m,n}\<close>.\<close>

definition plus :: "rexp \<Rightarrow> rexp" where
  "plus r = Times r (Star r)"

definition opt :: "rexp \<Rightarrow> rexp" where
  "opt r = Alt One r"

fun exactly :: "nat \<Rightarrow> rexp \<Rightarrow> rexp" where
  "exactly 0 r = One"
| "exactly (Suc n) r = Times r (exactly n r)"

fun at_most :: "nat \<Rightarrow> rexp \<Rightarrow> rexp" where
  "at_most 0 r = One"
| "at_most (Suc n) r = opt (Times r (at_most n r))"

definition between :: "nat \<Rightarrow> nat \<Rightarrow> rexp \<Rightarrow> rexp" where
  "between m n r = Times (exactly m r) (at_most (n - m) r)"

definition chr :: "char \<Rightarrow> rexp" where
  "chr c = Atom (\<lambda>d. d = c)"

text \<open>\<open>/^[0-9a-f]{8}-[0-9a-f]{4}-[0-9a-f]{4}-[0-9a-f]{4}-[0-9a-f]{12}$/i\<close>\<close>

definition hex_digit :: rexp where
  "hex_digit = Atom (\<lambda>c. c \<in> set hex_chars)"

definition uuidRegex :: rexp where
  "uuidRegex =
     Times (exactly 8 hex_digit) (Times (chr CHR ''-'')
    (Times (exactly 4 hex_digit) (Times (chr CHR ''-'')
    (Times (exactly 4 hex_digit) (Times (chr CHR ''-'')
    (Times (exactly 4 hex_digit) (Times (chr CHR ''-'')
           (exactly 12 hex_digit))))))))"

definition isUUID :: "string \<Rightarrow> bool" where
  "isUUID s = regex_test uuidRegex s"

text \<open>\<open>/^[^\s@]+@[^\s@]+\.[^\s@]+$/\<close>\<close>

definition not_space_or_at :: rexp where
  "not_space_or_at = Atom (\<lambda>c. \<not> js_whitespace c \<and> c \<noteq> CHR ''@'')"

definition emailRegex :: rexp where
  "emailRegex =
     Times (plus not_space_or_at) (Times (chr CHR ''@'')
    (Times (plus not_space_or_at) (Times (chr CHR ''.'')
           (plus not_space_or_at))))"

text \<open>\<open>/^\+?[\d\s\-\(\)]{7,15}$/\<close>\<close>

definition phone_char :: rexp where
  "phone_char = Atom (\<lambda>c. c \<in> set digit_chars \<or> js_whitespace c \<or> c \<in> set ''-()'')"

definition phoneRegex :: rexp where
  "phoneRegex = Times (opt (chr CHR ''+'')) (between 7 15 phone_char)"

text \<open>\<open>regex.test(v)\<close> converts its argument to a string first: \<open>undefined\<close> is
  tested as the text \<open>undefined\<close>.\<close>

definition test_value :: "rexp \<Rightarrow> string option \<Rightarrow> bool" where
  "test_value r v = regex_test r (case v of None \<Rightarrow> ''undefined'' | Some s \<Rightarrow> s)"

section \<open>The external store\<close>

text \<open>
  The handlers reach the database through the Supabase client. The client is not part
  of the repository: the model takes it as a parameter, a function from the call a
  handler issues to the \<open>{ data, error, count }\<close> object the client resolves to. Every
  handler returns, next to its response, the calls it issued, in order.
\<close>

datatype jsval =
    JNull
  | JBool bool
  | JNum rat
  | JStr string
  | JArr "jsval list"
  | JObj "(string \<times> jsval) list"

fun truthy :: "jsval \<Rightarrow> bool" where
  "truthy JNull = False"
| "truthy (JBool b) = b"
| "truthy (JNum r) = (r \<noteq> 0)"
| "truthy (JStr s) = (s \<noteq> [])"
| "truthy (JArr xs) = True"
| "truthy (JObj kvs) = True"

text \<open>\<open>x > 0\<close> for a value read from an object: a number is compared as it is, \<open>true\<close>
  converts to \<open>1\<close>, \<open>false\<close> and \<open>null\<close> to \<open>0\<close>. The conversion of a string, an
  array or an object to a number is not modelled; the store answers a list query with
  an array or \<open>null\<close>, never with an object that has a \<open>length\<close> of such a kind.\<close>

fun positive :: "jsval \<Rightarrow> bool" where
  "positive (JNum r) = (0 < r)"
| "positive (JBool b) = b"
| "positive _ = False"

text \<open>\<open>v && v.length > 0\<close>: arrays and strings have a length; an object has the
  \<open>length\<close> stored under that key, if any; on any other value \<open>length\<close> is
  \<open>undefined\<close> and the comparison is false.\<close>

fun nonempty_length :: "jsval \<Rightarrow> bool" where
  "nonempty_length (JArr xs) = (xs \<noteq> [])"
| "nonempty_length (JStr s) = (s \<noteq> [])"
| "nonempty_length (JObj kvs) = (case map_of kvs ''length'' of None \<Rightarrow> False | Some v \<Rightarrow> positive v)"
| "nonempty_length _ = False"

datatype store_error = StoreError (code: string)

record store_result =
  data :: jsval
  error :: "store_error option"
  count :: "nat option"

text \<open>The request bodies, typed as the interfaces of the source declare them. Every
  field may be absent from the JSON that arrives.\<close>

record CreateMemberRequest =
  first_name :: "string option"
  last_name :: "string option"
  photo_url :: "string option"
  phone :: "string option"
  email :: "string option"
  address :: "string option"
  health_issues :: "string option"
  subscription_plan_id :: "string option"
  subscription_start_date :: "string option"
  subscription_expiry_date :: "string option"
  last_fee_paid_date :: "string option"

text \<open>\<open>UpdateMemberRequest\<close> is \<open>Partial<CreateMemberRequest>\<close>; the body may also carry
  an \<open>id\<close>, which the handler deletes.\<close>

record UpdateMemberRequest = CreateMemberRequest +
  id_field :: "string option"

record CreatePricingPlanRequest =
  name :: "string field"
  description :: "string field"
  price :: "rat field"
  duration_days :: "rat field"
  features :: "string list field"
  is_active :: "bool field"

text \<open>The body of a transaction create request (\<open>transactionData\<close>), with the fields
  of the \<open>Transaction\<close> interface that a client supplies.\<close>

record transactionData =
  member_id :: "string option"
  plan_id :: "string option"
  amount :: "rat option"
  payment_method :: "string option"
  transaction_date :: "string option"
  status :: "string option"
  notes_text :: "string option"

datatype filter_clause =
    Eq string jsval
  | Gte string string
  | Lte string string
  | Lt string string
  | Is_null string
  | Not_is_null string
  | Or_filter string
  | Order_by string bool
  | Row_range jsnum jsnum
  | Limit nat

record select_query =
  table :: string
  columns :: string
  count_exact :: bool
  head_only :: bool
  clauses :: "filter_clause list"
  single :: bool

datatype row_values =
    MemberValues CreateMemberRequest
  | MemberChanges UpdateMemberRequest string
  | PlanValues CreatePricingPlanRequest
  | PlanChanges CreatePricingPlanRequest string
  | TransactionValues transactionData

datatype store_call =
    Select select_query
  | Insert string row_values string
  | Update string row_values "filter_clause list" string
  | Delete string "filter_clause list"

type_synonym store = "store_call \<Rightarrow> store_result"

text \<open>The query builder: \<open>supabase.from(t).select(cols, { count: 'exact' })\<close> and the
  methods chained on it, each adding one clause.\<close>

definition from_select :: "string \<Rightarrow> string \<Rightarrow> bool \<Rightarrow> bool \<Rightarrow> select_query" where
  "from_select t cols cnt hd_only =
     \<lparr>table = t, columns = cols, count_exact = cnt, head_only = hd_only, clauses = [], single = False\<rparr>"

definition with_clause :: "filter_clause \<Rightarrow> select_query \<Rightarrow> select_query" where
  "with_clause c q = q\<lparr>clauses := clauses q @ [c]\<rparr>"

definition as_single :: "select_query \<Rightarrow> select_query" where
  "as_single q = q\<lparr>single := True\<rparr>"

text \<open>The column list of the transaction queries, which embeds the member and the plan.\<close>

definition transaction_columns :: string where
  "transaction_columns =
     ''*, members:member_id (id, first_name, last_name, email, phone), pricing_plans:plan_id (id, name, price, duration_days)''"

section \<open>Requests, responses and the environment\<close>

text \<open>What \<open>verify(token, JWT_SECRET)\<close> of the token library does: it throws, or it
  returns the payload, of which the handlers read \<open>memberId\<close> (\<^term>\<open>None\<close> when the
  payload has no such key).\<close>

datatype verify_result = VerifyThrows | Payload "jsval option"

record env =
  ADMIN_API_KEY :: "string option"
  now_iso :: string
  jwt_verify :: "string \<Rightarrow> verify_result"

text \<open>
  \<^term>\<open>ADMIN_API_KEY\<close> is \<open>process.env.ADMIN_API_KEY\<close>, \<^term>\<open>now_iso\<close> is
  \<open>new Date().toISOString()\<close>, and \<^term>\<open>jwt_verify\<close> is \<open>verify\<close> with the
  configured secret.
\<close>

record 'b request =
  searchParams :: "(string \<times> string) list"
  pathname :: string
  authorization :: "string option"
  json :: "'b option"

text \<open>\<^term>\<open>json\<close> is the parsed body; \<^term>\<open>None\<close> where \<open>request.json()\<close> throws.\<close>

record pagination =
  page :: "rat option"
  limit :: "rat option"
  total :: "nat option"
  totalPages :: "rat option"
  hasNext :: bool
  hasPrev :: bool

datatype body =
    ErrorBody string
  | MissingBody string "string list"
  | DataBody jsval
  | ListBody jsval pagination
  | EmptyBody

record response =
  status :: nat
  body :: body

text \<open>The numbers of a response body are as \<open>JSON.stringify\<close> writes them.\<close>

definition searchParams_get :: "'b request \<Rightarrow> string \<Rightarrow> string option" where
  "searchParams_get req k = map_of (searchParams req) k"

text \<open>\<open>apiKey === process.env.ADMIN_API_KEY\<close>: an absent parameter is \<open>null\<close>, an unset
  variable is \<open>undefined\<close>, and the two are not strictly equal.\<close>

definition validateApiKey :: "env \<Rightarrow> 'b request \<Rightarrow> bool" where
  "validateApiKey e req =
     (case searchParams_get req ''api_key'' of
        None \<Rightarrow> False
      | Some k \<Rightarrow> (case ADMIN_API_KEY e of None \<Rightarrow> False | Some a \<Rightarrow> k = a))"

text \<open>\<open>validateMemberToken\<close> returns \<open>null\<close> when the header is missing, is not a bearer
  header, or the token does not verify; otherwise it returns \<open>decoded.memberId\<close>, which is
  \<open>undefined\<close> (\<^term>\<open>None\<close>) when the payload has none.\<close>

definition validateMemberToken :: "env \<Rightarrow> 'b request \<Rightarrow> jsval option" where
  "validateMemberToken e req =
     (case authorization req of
        None \<Rightarrow> Some JNull
      | Some h \<Rightarrow>
          if take 7 h = ''Bearer '' then
            (case jwt_verify e (drop 7 h) of VerifyThrows \<Rightarrow> Some JNull | Payload v \<Rightarrow> v)
          else Some JNull)"

text \<open>\<open>a === b\<close> on two values of which either may be \<open>undefined\<close>: both are
  \<open>undefined\<close>, or both are \<open>null\<close>, or they are the same boolean, number or string.
  An array or an object is equal only to itself; the values compared here come from two
  different places, so they never are.\<close>

fun strict_equal :: "jsval option \<Rightarrow> jsval option \<Rightarrow> bool" where
  "strict_equal None None = True"
| "strict_equal (Some JNull) (Some JNull) = True"
| "strict_equal (Some (JBool a)) (Some (JBool b)) = (a = b)"
| "strict_equal (Some (JNum a)) (Some (JNum b)) = (a = b)"
| "strict_equal (Some (JStr a)) (Some (JStr b)) = (a = b)"
| "strict_equal _ _ = False"

definition errorResponse :: "string \<Rightarrow> nat \<Rightarrow> response" where
  "errorResponse message st = \<lparr>status = st, body = ErrorBody message\<rparr>"

definition successResponse :: "jsval \<Rightarrow> nat \<Rightarrow> response" where
  "successResponse d st = \<lparr>status = st, body = DataBody d\<rparr>"

text \<open>The \<open>catch\<close> block of every handler.\<close>

definition internal_error :: response where
  "internal_error = errorResponse ''Internal server error'' 500"

text \<open>The pagination block, which the three list handlers repeat word for word:
  \<open>totalPages = Math.ceil((count || 0) / limit)\<close>, \<open>hasNext: page < totalPages\<close>,
  \<open>hasPrev: page > 1\<close>.\<close>

definition count_or_zero :: "nat option \<Rightarrow> jsnum" where
  "count_or_zero c = (case c of None \<Rightarrow> Fin 0 | Some n \<Rightarrow> Fin (of_nat n))"

definition list_response :: "jsnum \<Rightarrow> jsnum \<Rightarrow> store_result \<Rightarrow> response" where
  "list_response pg lm r =
     (let tp = Math_ceil (js_div (count_or_zero (count r)) lm)
      in \<lparr>status = 200,
          body = ListBody (data r)
            \<lparr>page = json_number pg, limit = json_number lm, total = count r,
             totalPages = json_number tp, hasNext = js_lt pg tp, hasPrev = js_gt pg (Fin 1)\<rparr>\<rparr>)"

text \<open>\<open>pathname.split('/')\<close> and its last element: what follows the last slash.\<close>

definition last_segment :: "string \<Rightarrow> string" where
  "last_segment p = rev (takeWhile (\<lambda>c. c \<noteq> CHR ''/'') (rev p))"

fun str_includes :: "string \<Rightarrow> string \<Rightarrow> bool" where
  "str_includes [] sub = (sub = [])"
| "str_includes (c # cs) sub = (take (length sub) (c # cs) = sub \<or> str_includes cs sub)"

text \<open>\<open>new Date().toISOString().split('T')[0]\<close>\<close>

definition today :: "env \<Rightarrow> string" where
  "today e = takeWhile (\<lambda>c. c \<noteq> CHR ''T'') (now_iso e)"

section \<open>Members: \<open>src/app/api/members/[id]/route.ts\<close>\<close>

definition unauthorized :: response where
  "unauthorized = errorResponse ''Invalid or missing API key'' 401"

definition jstr :: "string option \<Rightarrow> jsval" where
  "jstr v = (case v of None \<Rightarrow> JNull | Some s \<Rightarrow> JStr s)"

text \<open>The statistics branch of \<open>GET\<close>: four counting queries, whose errors are not read.\<close>

definition members_stats :: "env \<Rightarrow> store \<Rightarrow> response \<times> store_call list" where
  "members_stats e st =
     (let c1 = Select (from_select ''members'' ''*'' True True);
          c2 = Select (with_clause (Gte ''subscription_expiry_date'' (today e))
                 (from_select ''members'' ''*'' True True));
          c3 = Select (with_clause (Not_is_null ''subscription_expiry_date'')
                 (with_clause (Lt ''subscription_expiry_date'' (today e))
                 (from_select ''members'' ''*'' True True)));
          c4 = Select (with_clause (Is_null ''subscription_plan_id'')
                 (from_select ''members'' ''*'' True True));
          num = (\<lambda>c. JNum (of_nat (case count (st c) of None \<Rightarrow> 0 | Some n \<Rightarrow> n)))
      in (successResponse
            (JObj [(''totalMembers'', num c1), (''activeSubscriptions'', num c2),
                   (''expiredSubscriptions'', num c3), (''noSubscription'', num c4)]) 200,
          [c1, c2, c3, c4]))"

text \<open>The list branch of \<open>GET\<close>: filtering, sorting and pagination. The query is built
  first; \<open>page\<close> and \<open>limit\<close> are read once by the code, for the query and for the
  pagination block.\<close>

definition members_list_query :: "env \<Rightarrow> 'b request \<Rightarrow> select_query" where
  "members_list_query e req =
     (let pg = parseInt (or_default (searchParams_get req ''page'') ''1'');
          lm = parseInt (or_default (searchParams_get req ''limit'') ''10'');
          sort_col = or_default (searchParams_get req ''sort'') ''created_at'';
          sort_dir = or_default (searchParams_get req ''order'') ''desc'';
          search = searchParams_get req ''search'';
          plan = searchParams_get req ''subscription_plan_id'';
          active_only = searchParams_get req ''active_only'';
          offset = js_mul (js_sub pg (Fin 1)) lm;
          q = from_select ''members'' ''*'' True False;
          q = (case search of
                 None \<Rightarrow> q
               | Some s \<Rightarrow>
                   if s = [] then q
                   else with_clause (Or_filter
                     (''first_name.ilike.%'' @ s @ ''%,last_name.ilike.%'' @ s @
                      ''%,email.ilike.%'' @ s @ ''%,phone.ilike.%'' @ s @ ''%'')) q);
          q = (if truthy_str plan then with_clause (Eq ''subscription_plan_id'' (jstr plan)) q else q);
          q = (if active_only = Some ''true''
               then with_clause (Gte ''subscription_expiry_date'' (today e)) q else q);
          q = with_clause (Order_by sort_col (sort_dir = ''asc'')) q
      in with_clause (Row_range offset (js_sub (js_add offset lm) (Fin 1))) q)"

definition members_list :: "env \<Rightarrow> store \<Rightarrow> 'b request \<Rightarrow> response \<times> store_call list" where
  "members_list e st req =
     (let pg = parseInt (or_default (searchParams_get req ''page'') ''1'');
          lm = parseInt (or_default (searchParams_get req ''limit'') ''10'');
          c = Select (members_list_query e req);
          r = st c
      in case error r of
           Some err \<Rightarrow> (errorResponse ''Failed to fetch members'' 500, [c])
         | None \<Rightarrow> (list_response pg lm r, [c]))"

definition GET_members :: "env \<Rightarrow> store \<Rightarrow> 'b request \<Rightarrow> response \<times> store_call list" where
  "GET_members e st req =
     (if \<not> validateApiKey e req then (unauthorized, [])
      else
        let memberId = last_segment (pathname req)
        in if isUUID memberId \<and> memberId \<noteq> ''members'' then
             (let c = Select (as_single (with_clause (Eq ''id'' (JStr memberId))
                        (from_select ''members'' ''*'' False False)));
                  r = st c
              in case error r of
                   Some err \<Rightarrow>
                     if code err = ''PGRST116'' then (errorResponse ''Member not found'' 404, [c])
                     else (errorResponse ''Failed to fetch member'' 500, [c])
                 | None \<Rightarrow> (successResponse (data r) 200, [c]))
           else if str_includes (pathname req) ''/stats'' then members_stats e st
           else members_list e st req)"

text \<open>\<open>memberData[field]\<close> for the names in \<open>requiredFields\<close>.\<close>

definition member_field :: "'a CreateMemberRequest_scheme \<Rightarrow> string \<Rightarrow> string option" where
  "member_field b f =
     (if f = ''first_name'' then first_name b
      else if f = ''last_name'' then last_name b
      else if f = ''phone'' then phone b
      else if f = ''email'' then email b
      else None)"

definition POST_members ::
  "env \<Rightarrow> store \<Rightarrow> CreateMemberRequest request \<Rightarrow> response \<times> store_call list" where
  "POST_members e st req =
     (if \<not> validateApiKey e req then (unauthorized, [])
      else case json req of
        None \<Rightarrow> (internal_error, [])
      | Some memberData \<Rightarrow>
          let missingFields =
                filter (\<lambda>f. \<not> truthy_str (member_field memberData f))
                  [''first_name'', ''last_name'', ''phone'', ''email'']
          in if missingFields \<noteq> [] then
               (\<lparr>status = 400, body = MissingBody ''Missing required fields'' missingFields\<rparr>, [])
             else if \<not> test_value emailRegex (email memberData) then
               (errorResponse ''Invalid email format'' 400, [])
             else if \<not> test_value phoneRegex (phone memberData) then
               (errorResponse ''Invalid phone format'' 400, [])
             else
               let c = Insert ''members'' (MemberValues memberData) ''*'';
                   r = st c
               in (case error r of
                    Some err \<Rightarrow>
                      if code err = ''23505'' then
                        (errorResponse ''Member with this email or phone already exists'' 409, [c])
                      else (errorResponse ''Failed to create member'' 500, [c])
                  | None \<Rightarrow> (successResponse (data r) 201, [c])))"

definition PUT_members ::
  "env \<Rightarrow> store \<Rightarrow> UpdateMemberRequest request \<Rightarrow> response \<times> store_call list" where
  "PUT_members e st req =
     (if \<not> validateApiKey e req then (unauthorized, [])
      else
        let memberId = last_segment (pathname req)
        in if memberId = [] \<or> memberId = ''members'' then
             (errorResponse ''Member ID is required'' 400, [])
           else case json req of
             None \<Rightarrow> (internal_error, [])
           | Some body_json \<Rightarrow>
               let updateData = body_json\<lparr>id_field := None\<rparr>
               in if truthy_str (email updateData) \<and> \<not> test_value emailRegex (email updateData) then
                    (errorResponse ''Invalid email format'' 400, [])
                  else if truthy_str (phone updateData) \<and> \<not> test_value phoneRegex (phone updateData) then
                    (errorResponse ''Invalid phone format'' 400, [])
                  else
                    let c = Update ''members'' (MemberChanges updateData (now_iso e))
                              [Eq ''id'' (JStr memberId)] ''*'';
                        r = st c
                    in (case error r of
                         Some err \<Rightarrow>
                           if code err = ''PGRST116'' then (errorResponse ''Member not found'' 404, [c])
                           else if code err = ''23505'' then
                             (errorResponse ''Email or phone already exists for another member'' 409, [c])
                           else (errorResponse ''Failed to update member'' 500, [c])
                       | None \<Rightarrow> (successResponse (data r) 200, [c])))"

section \<open>Pricing plans: \<open>src/app/api/pricing_plans/route.ts\<close>\<close>

text \<open>\<open>GET\<close> is public: no key is checked. The query is built first, as for the
  members list.\<close>

definition pricing_plans_query :: "'b request \<Rightarrow> select_query" where
  "pricing_plans_query req =
     (let pg = parseInt (or_default (searchParams_get req ''page'') ''1'');
          lm = parseInt (or_default (searchParams_get req ''limit'') ''10'');
          sort_col = or_default (searchParams_get req ''sort'') ''price'';
          sort_dir = or_default (searchParams_get req ''order'') ''asc'';
          active_only = searchParams_get req ''active_only'';
          search = searchParams_get req ''search'';
          offset = js_mul (js_sub pg (Fin 1)) lm;
          q = from_select ''pricing_plans'' ''*'' True False;
          q = (if active_only = Some ''true'' then with_clause (Eq ''is_active'' (JBool True)) q else q);
          q = (case search of
                 None \<Rightarrow> q
               | Some s \<Rightarrow>
                   if s = [] then q
                   else with_clause (Or_filter
                     (''name.ilike.%'' @ s @ ''%,description.ilike.%'' @ s @ ''%'')) q);
          q = with_clause (Order_by sort_col (sort_dir = ''asc'')) q
      in with_clause (Row_range offset (js_sub (js_add offset lm) (Fin 1))) q)"

definition GET_pricing_plans :: "env \<Rightarrow> store \<Rightarrow> 'b request \<Rightarrow> response \<times> store_call list" where
  "GET_pricing_plans e st req =
     (let pg = parseInt (or_default (searchParams_get req ''page'') ''1'');
          lm = parseInt (or_default (searchParams_get req ''limit'') ''10'');
          c = Select (pricing_plans_query req);
          r = st c
      in case error r of
           Some err \<Rightarrow> (errorResponse ''Failed to fetch pricing plans'' 500, [c])
         | None \<Rightarrow> (list_response pg lm r, [c]))"

text \<open>\<open>!planData[field]\<close> for the names in \<open>requiredFields\<close>: an absent key,
  \<open>null\<close>, an empty name and a number equal to zero are all falsy.\<close>

definition plan_field_truthy :: "'a CreatePricingPlanRequest_scheme \<Rightarrow> string \<Rightarrow> bool" where
  "plan_field_truthy b f =
     (if f = ''name'' then field_truthy_str (name b)
      else if f = ''price'' then field_truthy_num (price b)
      else if f = ''duration_days'' then field_truthy_num (duration_days b)
      else False)"

text \<open>\<open>v <= 0\<close> on the amount of a transaction body. The handler reaches the
  comparison only with a truthy amount, so \<^term>\<open>None\<close> does not occur there.\<close>

definition le_zero :: "rat option \<Rightarrow> bool" where
  "le_zero v = (case v of None \<Rightarrow> False | Some r \<Rightarrow> r \<le> 0)"

definition POST_pricing_plans ::
  "env \<Rightarrow> store \<Rightarrow> CreatePricingPlanRequest request \<Rightarrow> response \<times> store_call list" where
  "POST_pricing_plans e st req =
     (if \<not> validateApiKey e req then (unauthorized, [])
      else case json req of
        None \<Rightarrow> (internal_error, [])
      | Some planData \<Rightarrow>
          let missingFields =
                filter (\<lambda>f. \<not> plan_field_truthy planData f) [''name'', ''price'', ''duration_days'']
          in if missingFields \<noteq> [] then
               (\<lparr>status = 400, body = MissingBody ''Missing required fields'' missingFields\<rparr>, [])
             else if field_le_zero (price planData) then
               (errorResponse ''Price must be greater than 0'' 400, [])
             else if field_le_zero (duration_days planData) then
               (errorResponse ''Duration days must be greater than 0'' 400, [])
             else
               let planWithDefaults =
                     planData\<lparr>is_active :=
                       (if is_active planData \<noteq> Absent then is_active planData else Given True)\<rparr>;
                   c = Insert ''pricing_plans'' (PlanValues planWithDefaults) ''*'';
                   r = st c
               in (case error r of
                    Some err \<Rightarrow>
                      if code err = ''23505'' then
                        (errorResponse ''Pricing plan with this name already exists'' 409, [c])
                      else (errorResponse ''Failed to create pricing plan'' 500, [c])
                  | None \<Rightarrow> (successResponse (data r) 201, [c])))"

section \<open>One pricing plan: \<open>src/unnamed/part_001\<close>\<close>

text \<open>The handlers of this file receive the plan id as the route parameter \<open>params.id\<close>.
  The update body is typed as the create request, all of whose fields are optional; the
  \<open>delete updateData.id\<close> of the source removes a key that this type does not have.\<close>

definition PUT_pricing_plan ::
  "env \<Rightarrow> store \<Rightarrow> CreatePricingPlanRequest request \<Rightarrow> string \<Rightarrow> response \<times> store_call list" where
  "PUT_pricing_plan e st req planId =
     (if \<not> validateApiKey e req then (unauthorized, [])
      else if \<not> isUUID planId then (errorResponse ''Invalid pricing plan ID format'' 400, [])
      else case json req of
        None \<Rightarrow> (internal_error, [])
      | Some updateData \<Rightarrow>
          if price updateData \<noteq> Absent \<and> field_le_zero (price updateData) then
            (errorResponse ''Price must be greater than 0'' 400, [])
          else if duration_days updateData \<noteq> Absent \<and> field_le_zero (duration_days updateData) then
            (errorResponse ''Duration days must be greater than 0'' 400, [])
          else
            let c = Update ''pricing_plans'' (PlanChanges updateData (now_iso e))
                      [Eq ''id'' (JStr planId)] ''*'';
                r = st c
            in (case error r of
                 Some err \<Rightarrow>
                   if code err = ''PGRST116'' then (errorResponse ''Pricing plan not found'' 404, [c])
                   else if code err = ''23505'' then
                     (errorResponse ''Pricing plan with this name already exists'' 409, [c])
                   else (errorResponse ''Failed to update pricing plan'' 500, [c])
               | None \<Rightarrow> (successResponse (data r) 200, [c])))"

text \<open>The check that \<open>DELETE\<close> runs first:
  \<open>from('members').select('id').eq('subscription_plan_id', planId).limit(1)\<close>.\<close>

definition plan_usage_query :: "string \<Rightarrow> store_call" where
  "plan_usage_query planId =
     Select (with_clause (Limit 1) (with_clause (Eq ''subscription_plan_id'' (JStr planId))
       (from_select ''members'' ''id'' False False)))"

definition DELETE_pricing_plan ::
  "env \<Rightarrow> store \<Rightarrow> 'b request \<Rightarrow> string \<Rightarrow> response \<times> store_call list" where
  "DELETE_pricing_plan e st req planId =
     (if \<not> validateApiKey e req then (unauthorized, [])
      else if \<not> isUUID planId then (errorResponse ''Invalid pricing plan ID format'' 400, [])
      else
        let c1 = plan_usage_query planId;
            membersUsingPlan = st c1
        in case error membersUsingPlan of
             Some checkError \<Rightarrow> (errorResponse ''Failed to check plan usage'' 500, [c1])
           | None \<Rightarrow>
               if truthy (data membersUsingPlan) \<and> nonempty_length (data membersUsingPlan) then
                 (errorResponse ''Cannot delete pricing plan that is currently in use by members'' 409,
                  [c1])
               else
                 let c2 = Delete ''pricing_plans'' [Eq ''id'' (JStr planId)];
                     r = st c2
                 in (case error r of
                      Some err \<Rightarrow> (errorResponse ''Failed to delete pricing plan'' 500, [c1, c2])
                    | None \<Rightarrow> (\<lparr>status = 204, body = EmptyBody\<rparr>, [c1, c2])))"

section \<open>Transactions: \<open>src/app/api/transactions/route.ts\<close>\<close>

definition transactions_query :: "'b request \<Rightarrow> select_query" where
  "transactions_query req =
       (let pg = parseInt (or_default (searchParams_get req ''page'') ''1'');
            lm = parseInt (or_default (searchParams_get req ''limit'') ''10'');
            sort_col = or_default (searchParams_get req ''sort'') ''created_at'';
            sort_dir = or_default (searchParams_get req ''order'') ''desc'';
            member = searchParams_get req ''member_id'';
            plan = searchParams_get req ''plan_id'';
            stat = searchParams_get req ''status'';
            date_from = searchParams_get req ''date_from'';
            date_to = searchParams_get req ''date_to'';
            method = searchParams_get req ''payment_method'';
            offset = js_mul (js_sub pg (Fin 1)) lm;
            q = from_select ''transactions'' transaction_columns True False;
            q = (if truthy_str member then with_clause (Eq ''member_id'' (jstr member)) q else q);
            q = (if truthy_str plan then with_clause (Eq ''plan_id'' (jstr plan)) q else q);
            q = (if truthy_str stat then with_clause (Eq ''status'' (jstr stat)) q else q);
            q = (if truthy_str method then with_clause (Eq ''payment_method'' (jstr method)) q else q);
            q = (if truthy_str date_from
                 then with_clause (Gte ''transaction_date'' (or_default date_from [])) q else q);
            q = (if truthy_str date_to
                 then with_clause (Lte ''transaction_date'' (or_default date_to [])) q else q);
            q = with_clause (Order_by sort_col (sort_dir = ''asc'')) q
        in with_clause (Row_range offset (js_sub (js_add offset lm) (Fin 1))) q)"

definition GET_transactions :: "env \<Rightarrow> store \<Rightarrow> 'b request \<Rightarrow> response \<times> store_call list" where
  "GET_transactions e st req =
     (if \<not> validateApiKey e req then (unauthorized, [])
      else
        let pg = parseInt (or_default (searchParams_get req ''page'') ''1'');
            lm = parseInt (or_default (searchParams_get req ''limit'') ''10'');
            c = Select (transactions_query req);
            r = st c
        in case error r of
             Some err \<Rightarrow> (errorResponse ''Failed to fetch transactions'' 500, [c])
           | None \<Rightarrow> (list_response pg lm r, [c]))"

text \<open>\<open>!transactionData[field]\<close> for the names in \<open>requiredFields\<close>.\<close>

definition transaction_field_truthy :: "transactionData \<Rightarrow> string \<Rightarrow> bool" where
  "transaction_field_truthy b f =
     (if f = ''member_id'' then truthy_str (member_id b)
      else if f = ''amount'' then truthy_num (amount b)
      else if f = ''payment_method'' then truthy_str (payment_method b)
      else if f = ''transaction_date'' then truthy_str (transaction_date b)
      else False)"

text \<open>The existence checks of \<open>POST\<close>: \<open>from(t).select('id').eq('id', v).single()\<close>.\<close>

definition select_id :: "string \<Rightarrow> string option \<Rightarrow> store_call" where
  "select_id t v =
     Select (as_single (with_clause (Eq ''id'' (jstr v)) (from_select t ''id'' False False)))"

text \<open>The insert of \<open>POST\<close>, reached once the member and the plan have been found.\<close>

definition insert_transaction :: "store \<Rightarrow> transactionData \<Rightarrow> store_call list \<Rightarrow> response \<times> store_call list" where
  "insert_transaction st td issued =
     (let c = Insert ''transactions''
                (TransactionValues
                  (td\<lparr>transactionData.status := Some (or_default (transactionData.status td) ''pending'')\<rparr>))
                transaction_columns;
          r = st c
      in case error r of
           Some err \<Rightarrow> (errorResponse ''Failed to create transaction'' 500, issued @ [c])
         | None \<Rightarrow> (successResponse (data r) 201, issued @ [c]))"

definition POST_transactions ::
  "env \<Rightarrow> store \<Rightarrow> transactionData request \<Rightarrow> response \<times> store_call list" where
  "POST_transactions e st req =
     (if \<not> validateApiKey e req then (unauthorized, [])
      else case json req of
        None \<Rightarrow> (internal_error, [])
      | Some td \<Rightarrow>
          let missingFields =
                filter (\<lambda>f. \<not> transaction_field_truthy td f)
                  [''member_id'', ''amount'', ''payment_method'', ''transaction_date'']
          in if missingFields \<noteq> [] then
               (\<lparr>status = 400, body = MissingBody ''Missing required fields'' missingFields\<rparr>, [])
             else if le_zero (amount td) then
               (errorResponse ''Amount must be greater than 0'' 400, [])
             else
               let c1 = select_id ''members'' (member_id td)
               in if \<not> truthy (data (st c1)) then (errorResponse ''Member not found'' 404, [c1])
                  else if truthy_str (plan_id td) then
                    (let c2 = select_id ''pricing_plans'' (plan_id td)
                     in if \<not> truthy (data (st c2)) then
                          (errorResponse ''Pricing plan not found'' 404, [c1, c2])
                        else insert_transaction st td [c1, c2])
                  else insert_transaction st td [c1])"

section \<open>One transaction: \<open>src/app/api/transactions/[id]/route.ts\<close>\<close>

text \<open>\<open>transaction.member_id\<close>: reading a property of \<open>null\<close> throws; an object gives the
  value stored under the key or \<open>undefined\<close>; any other value has no such property.\<close>

datatype prop_read = Throws | Undefined | Value jsval

fun read_member_id :: "jsval \<Rightarrow> prop_read" where
  "read_member_id JNull = Throws"
| "read_member_id (JObj kvs) = (case map_of kvs ''member_id'' of None \<Rightarrow> Undefined | Some v \<Rightarrow> Value v)"
| "read_member_id _ = Undefined"

text \<open>\<open>authenticatedMemberId !== transaction.member_id\<close>, once the property has been
  read.\<close>

fun differs :: "jsval option \<Rightarrow> prop_read \<Rightarrow> bool" where
  "differs a (Value v) = (\<not> strict_equal a (Some v))"
| "differs a Undefined = (\<not> strict_equal a None)"
| "differs a Throws = True"

text \<open>\<open>from('transactions').select(...).eq('id', transactionId).single()\<close>\<close>

definition transaction_query :: "string \<Rightarrow> store_call" where
  "transaction_query transactionId =
     Select (as_single (with_clause (Eq ''id'' (JStr transactionId))
       (from_select ''transactions'' transaction_columns False False)))"

definition GET_transaction ::
  "env \<Rightarrow> store \<Rightarrow> 'b request \<Rightarrow> string \<Rightarrow> response \<times> store_call list" where
  "GET_transaction e st req transactionId =
     (if \<not> isUUID transactionId then (errorResponse ''Invalid transaction ID format'' 400, [])
      else
        let c = transaction_query transactionId;
            r = st c
        in case error r of
             Some err \<Rightarrow>
               if code err = ''PGRST116'' then (errorResponse ''Transaction not found'' 404, [c])
               else (errorResponse ''Failed to fetch transaction'' 500, [c])
           | None \<Rightarrow>
               let isAdmin = validateApiKey e req;
                   authenticatedMemberId = validateMemberToken e req
               in if isAdmin then (successResponse (data r) 200, [c])
                  else if read_member_id (data r) = Throws then (internal_error, [c])
                  else if differs authenticatedMemberId (read_member_id (data r)) then
                    (errorResponse ''Access denied. Admin access or transaction ownership required'' 403,
                     [c])
                  else (successResponse (data r) 200, [c]))"

section \<open>The caller's own profile: \<open>src/unnamed/part_000\<close>\<close>

text \<open>\<open>!memberId\<close> on what \<open>validateMemberToken\<close> returned.\<close>

definition falsy_id :: "jsval option \<Rightarrow> bool" where
  "falsy_id v = (case v of None \<Rightarrow> True | Some w \<Rightarrow> \<not> truthy w)"

definition GET_member_profile :: "env \<Rightarrow> store \<Rightarrow> 'b request \<Rightarrow> response \<times> store_call list" where
  "GET_member_profile e st req =
     (let memberId = validateMemberToken e req
      in if falsy_id memberId then
           (errorResponse ''Invalid or missing authentication token'' 401, [])
         else
           let c = Select (as_single (with_clause
                     (Eq ''id'' (case memberId of None \<Rightarrow> JNull | Some w \<Rightarrow> w))
                     (from_select ''members'' ''*'' False False)));
               r = st c
           in (case error r of
                 Some err \<Rightarrow>
                   if code err = ''PGRST116'' then (errorResponse ''Member not found'' 404, [c])
                   else (errorResponse ''Failed to fetch member profile'' 500, [c])
               | None \<Rightarrow> (successResponse (data r) 200, [c])))"

section \<open>Observations and sample inputs\<close>

text \<open>What a client and the store see of a handler's run.\<close>

fun pagination_of :: "response \<Rightarrow> pagination option" where
  "pagination_of r = (case body r of ListBody d p \<Rightarrow> Some p | _ \<Rightarrow> None)"

fun is_insert :: "store_call \<Rightarrow> bool" where
  "is_insert (Insert t v cols) = True"
| "is_insert _ = False"

fun is_delete :: "store_call \<Rightarrow> bool" where
  "is_delete (Delete t cs) = True"
| "is_delete _ = False"

text \<open>A response names a field when the field is in its \<open>missing\<close> list or its error
  message contains the field's name.\<close>

definition names_field :: "response \<Rightarrow> string \<Rightarrow> bool" where
  "names_field r f =
     (case body r of
        ErrorBody m \<Rightarrow> str_includes m f
      | MissingBody m fs \<Rightarrow> f \<in> set fs \<or> str_includes m f
      | _ \<Rightarrow> False)"

definition sample_env :: env where
  "sample_env =
     \<lparr>ADMIN_API_KEY = Some ''admin-secret'',
      now_iso = ''2024-03-01T09:30:00.000Z'',
      jwt_verify = (\<lambda>t. if t = ''token-of-member-1'' then Payload (Some (JStr ''member-1''))
                        else if t = ''token-of-member-2'' then Payload (Some (JStr ''member-2''))
                        else VerifyThrows)\<rparr>"

definition sample_uuid :: string where
  "sample_uuid = ''123e4567-e89b-12d3-a456-426614174000''"

text \<open>A request with the given query parameters, path, \<open>Authorization\<close> header and body.\<close>

definition mk_request ::
  "(string \<times> string) list \<Rightarrow> string \<Rightarrow> string option \<Rightarrow> 'b option \<Rightarrow> 'b request" where
  "mk_request ps path auth b = \<lparr>searchParams = ps, pathname = path, authorization = auth, json = b\<rparr>"

definition admin_key :: "(string \<times> string) list" where
  "admin_key = [(''api_key'', ''admin-secret'')]"

text \<open>A store that gives the same answer to every call.\<close>

definition answering :: "store_result \<Rightarrow> store" where
  "answering r = (\<lambda>c. r)"

definition ok_result :: "jsval \<Rightarrow> nat option \<Rightarrow> store_result" where
  "ok_result d n = \<lparr>data = d, error = None, count = n\<rparr>"

definition failed_result :: "string \<Rightarrow> store_result" where
  "failed_result c = \<lparr>data = JNull, error = Some (StoreError c), count = None\<rparr>"

definition sample_member :: CreateMemberRequest where
  "sample_member =
     \<lparr>first_name = Some ''Ada'', last_name = Some ''Lovelace'', photo_url = None,
      phone = Some ''+1 555-123-4567'', email = Some ''ada@example.com'', address = None,
      health_issues = None, subscription_plan_id = None, subscription_start_date = None,
      subscription_expiry_date = None, last_fee_paid_date = None\<rparr>"

definition no_changes :: UpdateMemberRequest where
  "no_changes =
     \<lparr>first_name = None, last_name = None, photo_url = None, phone = None, email = None,
      address = None, health_issues = None, subscription_plan_id = None,
      subscription_start_date = None, subscription_expiry_date = None,
      last_fee_paid_date = None, id_field = None\<rparr>"

definition gold_plan :: CreatePricingPlanRequest where
  "gold_plan =
     \<lparr>name = Given ''Gold'', description = Absent, price = Given 0, duration_days = Given 30,
      features = Absent, is_active = Absent\<rparr>"

definition sample_payment :: transactionData where
  "sample_payment =
     \<lparr>member_id = Some ''member-1'', plan_id = None, amount = Some 50,
      payment_method = Some ''cash'', transaction_date = Some ''2024-03-01'',
      status = None, notes_text = None\<rparr>"

text \<open>A transaction row owned by \<open>member-1\<close>.\<close>

definition sample_transaction :: jsval where
  "sample_transaction =
     JObj [(''id'', JStr sample_uuid), (''member_id'', JStr ''member-1''), (''amount'', JNum 50),
           (''status'', JStr ''completed'')]"

definition plan_in_use :: store where
  "plan_in_use = answering (ok_result (JArr [JObj [(''id'', JStr ''member-1'')]]) None)"

definition delete_plan_request :: "unit request" where
  "delete_plan_request = mk_request admin_key ''/api/pricing_plans/123e4567-e89b-12d3-a456-426614174000'' None None"

definition create_member_request :: "CreateMemberRequest request" where
  "create_member_request = mk_request admin_key ''/api/members'' None (Some sample_member)"

definition create_plan_request :: "CreatePricingPlanRequest request" where
  "create_plan_request = mk_request admin_key ''/api/pricing_plans'' None (Some gold_plan)"

definition update_plan_request :: "CreatePricingPlanRequest request" where
  "update_plan_request =
     mk_request admin_key ''/api/pricing_plans/123e4567-e89b-12d3-a456-426614174000'' None (Some gold_plan)"

text \<open>The pagination summary in the spec's words: \<open>totalPages = ceil(total / limit)\<close>,
  \<open>hasNext = page < totalPages\<close>, \<open>hasPrev = page > 1\<close>, for a page number \<open>p\<close>, a page
  size \<open>l\<close> and a total of \<open>n\<close> rows.\<close>

definition spec_pagination :: "int \<Rightarrow> int \<Rightarrow> nat \<Rightarrow> pagination" where
  "spec_pagination p l n =
     \<lparr>page = Some (of_int p), limit = Some (of_int l), total = Some n,
      totalPages = Some (of_int \<lceil>(of_nat n :: rat) / of_int l\<rceil>),
      hasNext = (p < \<lceil>(of_nat n :: rat) / of_int l\<rceil>),
      hasPrev = (p > 1)\<rparr>"

definition page_two_request :: "unit request" where
  "page_two_request =
     mk_request (admin_key @ [(''page'', ''2''), (''limit'', ''10'')]) ''/api/members'' None None"

text \<open>The calls that the three list handlers issue for page 2 with limit 10 and no
  filter: rows 10 to 19 in the default order of each list.\<close>

definition members_page_two :: store_call where
  "members_page_two =
     Select \<lparr>table = ''members'', columns = ''*'', count_exact = True, head_only = False,
             clauses = [Order_by ''created_at'' False, Row_range (Fin 10) (Fin 19)],
             single = False\<rparr>"

definition transactions_page_two :: store_call where
  "transactions_page_two =
     Select \<lparr>table = ''transactions'', columns = transaction_columns, count_exact = True,
             head_only = False,
             clauses = [Order_by ''created_at'' False, Row_range (Fin 10) (Fin 19)],
             single = False\<rparr>"

definition plans_page_two :: store_call where
  "plans_page_two =
     Select \<lparr>table = ''pricing_plans'', columns = ''*'', count_exact = True, head_only = False,
             clauses = [Order_by ''price'' True, Row_range (Fin 10) (Fin 19)],
             single = False\<rparr>"

text \<open>A store that counts 25 rows in each of the three tables and fails on every other
  call.\<close>

definition twenty_five_rows :: store where
  "twenty_five_rows =
     (\<lambda>c. if c = members_page_two \<or> c = transactions_page_two \<or> c = plans_page_two
          then ok_result (JArr []) (Some 25) else failed_result ''XX000'')"

definition anonymous_request :: "unit request" where
  "anonymous_request =
     mk_request [] ''/api/transactions/123e4567-e89b-12d3-a456-426614174000'' None None"

definition other_member_request :: "unit request" where
  "other_member_request =
     mk_request [] ''/api/transactions/123e4567-e89b-12d3-a456-426614174000''
       (Some ''Bearer token-of-member-2'') None"

definition transaction_found :: store where
  "transaction_found = answering (ok_result sample_transaction None)"

text \<open>The query for one transaction, written out, and a store that holds one
  transaction, under the sample id.\<close>

definition transaction_by_id :: "string \<Rightarrow> store_call" where
  "transaction_by_id tid =
     Select \<lparr>table = ''transactions'', columns = transaction_columns, count_exact = False,
             head_only = False, clauses = [Eq ''id'' (JStr tid)], single = True\<rparr>"

definition other_uuid :: string where
  "other_uuid = ''00000000-0000-4000-8000-000000000000''"

definition one_transaction :: store where
  "one_transaction =
     (\<lambda>c. if c = transaction_by_id sample_uuid then ok_result sample_transaction None
          else failed_result ''PGRST116'')"

definition member_found :: store where
  "member_found = answering (ok_result (JObj [(''id'', JStr ''member-1'')]) None)"

definition create_payment_request :: "transactionData request" where
  "create_payment_request = mk_request admin_key ''/api/transactions'' None (Some sample_payment)"

definition silver_plan :: CreatePricingPlanRequest where
  "silver_plan =
     \<lparr>name = Given ''Silver'', description = Absent, price = Given 20, duration_days = Given 30,
      features = Absent, is_active = Absent\<rparr>"

definition create_silver_request :: "bool field \<Rightarrow> CreatePricingPlanRequest request" where
  "create_silver_request a =
     mk_request admin_key ''/api/pricing_plans'' None (Some (silver_plan\<lparr>is_active := a\<rparr>))"

definition abc_member :: CreateMemberRequest where
  "abc_member = sample_member\<lparr>phone := Some ''abc''\<rparr>"

definition new_phone :: "string \<Rightarrow> UpdateMemberRequest" where
  "new_phone s = no_changes\<lparr>phone := Some s\<rparr>"

definition post_member :: "CreateMemberRequest \<Rightarrow> CreateMemberRequest request" where
  "post_member b = mk_request admin_key ''/api/members'' None (Some b)"

definition put_member :: "UpdateMemberRequest \<Rightarrow> UpdateMemberRequest request" where
  "put_member u =
     mk_request admin_key ''/api/members/123e4567-e89b-12d3-a456-426614174000'' None (Some u)"

definition bad_email_and_phone :: CreateMemberRequest where
  "bad_email_and_phone = sample_member\<lparr>email := Some ''ada.example.com'', phone := Some ''abc''\<rparr>"

definition missing_response :: "string list \<Rightarrow> response \<times> store_call list" where
  "missing_response ms = (\<lparr>status = 400, body = MissingBody ''Missing required fields'' ms\<rparr>, [])"

definition no_contact :: CreateMemberRequest where
  "no_contact = sample_member\<lparr>phone := None, email := Some []\<rparr>"

definition refund :: transactionData where
  "refund = sample_payment\<lparr>amount := Some (- 5)\<rparr>"

definition post_payment :: "transactionData \<Rightarrow> transactionData request" where
  "post_payment b = mk_request admin_key ''/api/transactions'' None (Some b)"

definition post_plan :: "CreatePricingPlanRequest \<Rightarrow> CreatePricingPlanRequest request" where
  "post_plan b = mk_request admin_key ''/api/pricing_plans'' None (Some b)"

definition negative_price :: CreatePricingPlanRequest where
  "negative_price = gold_plan\<lparr>price := Given (- 1)\<rparr>"

definition negative_duration :: CreatePricingPlanRequest where
  "negative_duration = gold_plan\<lparr>price := Given 10, duration_days := Given (- 1)\<rparr>"

definition no_method :: transactionData where
  "no_method = sample_payment\<lparr>payment_method := None\<rparr>"

definition unpriced_plan :: CreatePricingPlanRequest where
  "unpriced_plan = gold_plan\<lparr>price := Absent\<rparr>"

text \<open>A transaction row whose \<open>member_id\<close> is \<open>null\<close>.\<close>

definition orphan_transaction :: jsval where
  "orphan_transaction = JObj [(''id'', JStr sample_uuid), (''member_id'', JNull)]"

definition quiet_store :: store where
  "quiet_store = answering (ok_result JNull None)"

section \<open>Facts about the sample inputs\<close>

lemma sample_uuid_isUUID: "isUUID sample_uuid"
  by code_simp

lemma admin_key_valid: "validateApiKey sample_env (mk_request admin_key path auth b)"
  by (simp add: validateApiKey_def searchParams_get_def mk_request_def admin_key_def sample_env_def)

lemma no_key_invalid: "\<not> validateApiKey e (mk_request [] path auth b)"
  by (simp add: validateApiKey_def searchParams_get_def mk_request_def)

lemma sample_email_ok: "test_value emailRegex (email sample_member)"
  by code_simp

lemma sample_phone_ok: "test_value phoneRegex (phone sample_member)"
  by code_simp

lemma sample_member_present:
  "truthy_str (first_name sample_member)" "truthy_str (last_name sample_member)"
  "truthy_str (phone sample_member)" "truthy_str (email sample_member)"
  by (simp_all add: sample_member_def truthy_str_def)

section \<open>The matcher decides the language\<close>

lemma nullable_lang: "nullable r \<longleftrightarrow> [] \<in> lang r"
  by (induction r) (auto intro: repeats_none)

lemma repeats_cons_split:
  assumes "x \<in> repeats L" and "x = c # w"
  shows "\<exists>u v. w = u @ v \<and> c # u \<in> L \<and> v \<in> repeats L"
  using assms
proof (induction arbitrary: w rule: repeats.induct)
  case repeats_none
  then show ?case by simp
next
  case (repeats_more u v)
  show ?case
  proof (cases u)
    case Nil
    with repeats_more show ?thesis by simp
  next
    case (Cons d u')
    with repeats_more have "d = c" and "w = u' @ v" by simp_all
    with Cons repeats_more(1,2) show ?thesis by blast
  qed
qed

lemma repeats_cons:
  "c # w \<in> repeats L \<longleftrightarrow> (\<exists>u v. w = u @ v \<and> c # u \<in> L \<and> v \<in> repeats L)"
proof
  assume "c # w \<in> repeats L"
  then show "\<exists>u v. w = u @ v \<and> c # u \<in> L \<and> v \<in> repeats L"
    by (rule repeats_cons_split) simp
next
  assume "\<exists>u v. w = u @ v \<and> c # u \<in> L \<and> v \<in> repeats L"
  then obtain u v where "w = u @ v" "c # u \<in> L" "v \<in> repeats L" by blast
  then show "c # w \<in> repeats L"
    using repeats_more [of "c # u" L v] by simp
qed

lemma lang_TimesI: "u \<in> lang r \<Longrightarrow> v \<in> lang s \<Longrightarrow> u @ v \<in> lang (Times r s)"
  by (simp only: lang.simps) blast

lemma deriv_lang: "w \<in> lang (deriv r c) \<longleftrightarrow> c # w \<in> lang r"
proof (induction r arbitrary: w)
  case (Times r s)
  show ?case
  proof
    assume "w \<in> lang (deriv (Times r s) c)"
    then consider u v where "w = u @ v" "u \<in> lang (deriv r c)" "v \<in> lang s"
      | "nullable r" "w \<in> lang (deriv s c)"
      by (auto split: if_splits)
    then show "c # w \<in> lang (Times r s)"
    proof cases
      case 1
      then have "c # u \<in> lang r" using Times.IH(1) by simp
      with 1 have "(c # u) @ v \<in> lang (Times r s)" by (simp only: lang_TimesI)
      with 1 show ?thesis by simp
    next
      case 2
      then have "[] \<in> lang r" "c # w \<in> lang s" using Times.IH(2) nullable_lang by simp_all
      then have "[] @ (c # w) \<in> lang (Times r s)" by (simp only: lang_TimesI)
      then show ?thesis by simp
    qed
  next
    assume "c # w \<in> lang (Times r s)"
    then obtain u v where uv: "c # w = u @ v" "u \<in> lang r" "v \<in> lang s" by auto
    show "w \<in> lang (deriv (Times r s) c)"
    proof (cases u)
      case Nil
      with uv have "nullable r" "w \<in> lang (deriv s c)"
        using Times.IH(2) nullable_lang by simp_all
      then show ?thesis by simp
    next
      case (Cons d u')
      with uv have "u' \<in> lang (deriv r c)" "w = u' @ v"
        using Times.IH(1) by simp_all
      with uv(3) have "w \<in> lang (Times (deriv r c) s)" by (simp only: lang_TimesI)
      then show ?thesis by simp
    qed
  qed
next
  case (Star r)
  then show ?case by (auto simp add: repeats_cons)
qed auto

lemma regex_test_lang: "regex_test r s \<longleftrightarrow> s \<in> lang r"
  unfolding regex_test_def
  by (induction s arbitrary: r) (simp_all add: nullable_lang deriv_lang)

section \<open>Properties of the handlers\<close>

text \<open>
  C2. The spec's example says that creating a plan with the body
  \<open>{name: "Gold", price: 0, duration_days: 30}\<close> and a valid admin key is answered with
  400 and the message \<open>Price must be greater than 0\<close>. The handler answers 400, but the
  required-field filter \<open>!planData[field]\<close> reads the price \<open>0\<close> as a missing field
  first: the message is \<open>Missing required fields\<close> with \<open>missing: ['price']\<close>, and the
  check \<open>planData.price <= 0\<close> is never reached with a price of zero.
\<close>

theorem POST_pricing_plans_price_zero:
  "POST_pricing_plans sample_env (answering (ok_result JNull None)) create_plan_request
   = (\<lparr>status = 400, body = MissingBody ''Missing required fields'' [''price'']\<rparr>, [])"
  by (simp add: POST_pricing_plans_def create_plan_request_def admin_key_valid)
     (simp add: mk_request_def gold_plan_def plan_field_truthy_def)

text \<open>The update handler of the same resource tests \<open>price !== undefined\<close> instead, and
  answers the same body with the message of the spec.\<close>

lemma PUT_pricing_plan_price_zero:
  "PUT_pricing_plan sample_env (answering (ok_result JNull None)) update_plan_request sample_uuid
   = (errorResponse ''Price must be greater than 0'' 400, [])"
  by (simp add: PUT_pricing_plan_def update_plan_request_def admin_key_valid sample_uuid_isUUID)
     (simp add: mk_request_def gold_plan_def)

text \<open>
  C5. \<open>DELETE /api/pricing_plans/:id\<close> with a valid admin key and a well-formed id: when
  the usage check finds at least one member whose \<open>subscription_plan_id\<close> is the plan
  (the store answers the check with a non-empty array and no error), the response has
  status 409, the usage check is the only call issued to the store, and no delete is
  among the calls.
\<close>

theorem DELETE_pricing_plan_in_use:
  assumes "validateApiKey e req" and "isUUID planId"
    and "error (st (plan_usage_query planId)) = None"
    and "data (st (plan_usage_query planId)) = JArr rows" and "rows \<noteq> []"
  shows "status (fst (DELETE_pricing_plan e st req planId)) = 409
       \<and> snd (DELETE_pricing_plan e st req planId) = [plan_usage_query planId]
       \<and> \<not> list_ex is_delete (snd (DELETE_pricing_plan e st req planId))"
  using assms
  by (simp add: DELETE_pricing_plan_def Let_def errorResponse_def plan_usage_query_def)

theorem DELETE_pricing_plan_in_use_witness:
  "validateApiKey sample_env delete_plan_request \<and> isUUID sample_uuid
   \<and> error (plan_in_use (plan_usage_query sample_uuid)) = None
   \<and> data (plan_in_use (plan_usage_query sample_uuid)) = JArr [JObj [(''id'', JStr ''member-1'')]]
   \<and> status (fst (DELETE_pricing_plan sample_env plan_in_use delete_plan_request sample_uuid)) = 409
   \<and> snd (DELETE_pricing_plan sample_env plan_in_use delete_plan_request sample_uuid)
       = [plan_usage_query sample_uuid]
   \<and> \<not> list_ex is_delete (snd (DELETE_pricing_plan sample_env plan_in_use delete_plan_request sample_uuid))"
proof -
  have key: "validateApiKey sample_env delete_plan_request"
    by (simp add: delete_plan_request_def admin_key_valid)
  have err: "error (plan_in_use (plan_usage_query sample_uuid)) = None"
    by (simp add: plan_in_use_def answering_def ok_result_def)
  have rows: "data (plan_in_use (plan_usage_query sample_uuid)) = JArr [JObj [(''id'', JStr ''member-1'')]]"
    by (simp add: plan_in_use_def answering_def ok_result_def)
  show ?thesis
    using DELETE_pricing_plan_in_use [where e = sample_env and st = plan_in_use
        and req = delete_plan_request and planId = sample_uuid
        and rows = "[JObj [(''id'', JStr ''member-1'')]]"]
      key sample_uuid_isUUID err rows
    by blast
qed

text \<open>
  C6. \<open>POST /api/members\<close> with a valid admin key and a body that passes validation: when
  the store answers the insert with the error code \<open>23505\<close> (a uniqueness violation), the
  response has status 409.
\<close>

theorem POST_members_conflict:
  assumes "validateApiKey e req" and "json req = Some b"
    and "truthy_str (first_name b)" and "truthy_str (last_name b)"
    and "truthy_str (phone b)" and "truthy_str (email b)"
    and "test_value emailRegex (email b)" and "test_value phoneRegex (phone b)"
    and "error (st (Insert ''members'' (MemberValues b) ''*'')) = Some err"
    and "code err = ''23505''"
  shows "status (fst (POST_members e st req)) = 409"
  using assms
  by (simp add: POST_members_def Let_def errorResponse_def member_field_def)

theorem POST_members_conflict_witness:
  "validateApiKey sample_env create_member_request
   \<and> json create_member_request = Some sample_member
   \<and> test_value emailRegex (email sample_member) \<and> test_value phoneRegex (phone sample_member)
   \<and> status (fst (POST_members sample_env (answering (failed_result ''23505'')) create_member_request)) = 409"
proof -
  have key: "validateApiKey sample_env create_member_request"
    by (simp add: create_member_request_def admin_key_valid)
  have b: "json create_member_request = Some sample_member"
    by (simp add: create_member_request_def mk_request_def)
  have err: "error (answering (failed_result ''23505'') (Insert ''members'' (MemberValues sample_member) ''*''))
             = Some (StoreError ''23505'')"
    by (simp add: answering_def failed_result_def)
  show ?thesis
    using POST_members_conflict [where e = sample_env and st = "answering (failed_result ''23505'')"
        and req = create_member_request and b = sample_member and err = "StoreError ''23505''"]
      key b sample_member_present sample_email_ok sample_phone_ok err
    by simp
qed

subsection \<open>Pagination\<close>

lemma ceil_div_tiny: "- 1 < (x::rat) \<Longrightarrow> x \<le> 0 \<Longrightarrow> \<lceil>x\<rceil> = 0"
  by (simp add: ceiling_eq_iff)

lemma ceil_of_quotient:
  assumes "l \<noteq> 0"
  shows "json_number (Math_ceil (js_div (Fin (of_nat n)) (Fin (of_int l))))
           = Some (of_int \<lceil>(of_nat n :: rat) / of_int l\<rceil>)"
proof (cases "n = 0")
  case True
  then show ?thesis using assms by (simp add: js_div_def signed_zero_def)
next
  case False
  show ?thesis
  proof (cases "- 1 < (of_nat n :: rat) / of_int l \<and> (of_nat n :: rat) / of_int l < 0")
    case True
    then have "\<lceil>(of_nat n :: rat) / of_int l\<rceil> = 0" by (simp add: ceil_div_tiny)
    with True False assms show ?thesis by (simp add: js_div_def)
  next
    case F2: False
    with False assms show ?thesis by (auto simp add: js_div_def)
  qed
qed

lemma lt_ceil_of_quotient:
  assumes "l \<noteq> 0"
  shows "js_lt (Fin (of_int p)) (Math_ceil (js_div (Fin (of_nat n)) (Fin (of_int l))))
           = (p < \<lceil>(of_nat n :: rat) / of_int l\<rceil>)"
proof (cases "n = 0")
  case True
  then show ?thesis using assms by (simp add: js_div_def signed_zero_def js_lt_def)
next
  case False
  show ?thesis
  proof (cases "- 1 < (of_nat n :: rat) / of_int l \<and> (of_nat n :: rat) / of_int l < 0")
    case True
    then have "\<lceil>(of_nat n :: rat) / of_int l\<rceil> = 0" by (simp add: ceil_div_tiny)
    with True False assms show ?thesis by (simp add: js_div_def js_lt_def)
  next
    case F2: False
    have "(rat_of_int p < rat_of_int \<lceil>(of_nat n :: rat) / of_int l\<rceil>) = (p < \<lceil>(of_nat n :: rat) / of_int l\<rceil>)"
      by (rule of_int_less_iff)
    with F2 False assms show ?thesis by (auto simp add: js_div_def js_lt_def)
  qed
qed

lemma list_response_pagination:
  assumes "l \<noteq> 0" and "count r = Some n"
  shows "list_response (Fin (of_int p)) (Fin (of_int l)) r
         = \<lparr>status = 200, body = ListBody (data r) (spec_pagination p l n)\<rparr>"
proof -
  have gt: "js_gt (Fin (of_int p)) (Fin 1) = (1 < p)"
    by (simp add: js_gt_def js_lt_def)
  show ?thesis
    using assms ceil_of_quotient [OF assms(1), of n] lt_ceil_of_quotient [OF assms(1), of p n] gt
    by (simp add: list_response_def count_or_zero_def Let_def spec_pagination_def)
qed

text \<open>The list handlers issue one call, and answer with the pagination block when the
  store reports no error for it.\<close>

lemma members_list_run:
  assumes "snd (members_list e st req) = [c]" and "error (st c) = None"
  shows "fst (members_list e st req)
         = list_response (parseInt (or_default (searchParams_get req ''page'') ''1''))
             (parseInt (or_default (searchParams_get req ''limit'') ''10'')) (st c)"
  using assms
  by (simp add: members_list_def Let_def split: option.splits)

lemma GET_transactions_run:
  assumes "validateApiKey e req"
    and "snd (GET_transactions e st req) = [c]" and "error (st c) = None"
  shows "fst (GET_transactions e st req)
         = list_response (parseInt (or_default (searchParams_get req ''page'') ''1''))
             (parseInt (or_default (searchParams_get req ''limit'') ''10'')) (st c)"
  using assms
  by (simp add: GET_transactions_def Let_def split: option.splits)

lemma GET_pricing_plans_run:
  assumes "snd (GET_pricing_plans e st req) = [c]" and "error (st c) = None"
  shows "fst (GET_pricing_plans e st req)
         = list_response (parseInt (or_default (searchParams_get req ''page'') ''1''))
             (parseInt (or_default (searchParams_get req ''limit'') ''10'')) (st c)"
  using assms
  by (simp add: GET_pricing_plans_def Let_def split: option.splits)

text \<open>
  C1. A list request (members, transactions, pricing plans) whose \<open>page\<close> and \<open>limit\<close>
  parameters read as the integers \<open>p\<close> and \<open>l\<close>, with \<open>l\<close> not zero, and whose query
  (the one call \<open>c\<close> the handler issues) the store answers without error and with the
  total count \<open>n\<close>, returns the pagination summary \<open>totalPages = ceil(n / l)\<close>,
  \<open>hasNext = (p < totalPages)\<close>, \<open>hasPrev = (p > 1)\<close>, next to \<open>page = p\<close>, \<open>limit = l\<close>
  and \<open>total = n\<close>. The members and transactions lists require the admin key, and the
  members handler lists when the path neither ends in a UUID nor contains \<open>/stats\<close>.
  The numbers are in the range where the code's doubles are exact: the count below
  \<open>2^53\<close>, and the page and the limit below \<open>2^26\<close> in magnitude, so that the offsets
  computed from them stay below \<open>2^53\<close> too.
\<close>

theorem list_pagination:
  assumes pg: "parseInt (or_default (searchParams_get req ''page'') ''1'') = Fin (of_int p)"
    and lm: "parseInt (or_default (searchParams_get req ''limit'') ''10'') = Fin (of_int l)"
    and nz: "l \<noteq> 0"
    and range: "\<bar>p\<bar> < 2 ^ 26" "\<bar>l\<bar> < 2 ^ 26" "n < 2 ^ 53"
  shows "(validateApiKey e req \<and> \<not> isUUID (last_segment (pathname req))
            \<and> \<not> str_includes (pathname req) ''/stats''
            \<and> snd (GET_members e st req) = [c] \<and> error (st c) = None \<and> count (st c) = Some n
          \<longrightarrow> pagination_of (fst (GET_members e st req)) = Some (spec_pagination p l n))
       \<and> (validateApiKey e req
            \<and> snd (GET_transactions e st req) = [c] \<and> error (st c) = None \<and> count (st c) = Some n
          \<longrightarrow> pagination_of (fst (GET_transactions e st req)) = Some (spec_pagination p l n))
       \<and> (snd (GET_pricing_plans e st req) = [c] \<and> error (st c) = None \<and> count (st c) = Some n
          \<longrightarrow> pagination_of (fst (GET_pricing_plans e st req)) = Some (spec_pagination p l n))"
proof (intro conjI impI)
  assume a: "validateApiKey e req \<and> \<not> isUUID (last_segment (pathname req))
            \<and> \<not> str_includes (pathname req) ''/stats''
            \<and> snd (GET_members e st req) = [c] \<and> error (st c) = None \<and> count (st c) = Some n"
  then have "GET_members e st req = members_list e st req"
    by (simp add: GET_members_def)
  with a have "fst (GET_members e st req) = list_response (Fin (of_int p)) (Fin (of_int l)) (st c)"
    using members_list_run [of e st req c] by (simp add: pg lm)
  with a show "pagination_of (fst (GET_members e st req)) = Some (spec_pagination p l n)"
    by (simp add: list_response_pagination [OF nz])
next
  assume a: "validateApiKey e req
            \<and> snd (GET_transactions e st req) = [c] \<and> error (st c) = None \<and> count (st c) = Some n"
  then have "fst (GET_transactions e st req) = list_response (Fin (of_int p)) (Fin (of_int l)) (st c)"
    using GET_transactions_run [of e req st c] by (simp add: pg lm)
  with a show "pagination_of (fst (GET_transactions e st req)) = Some (spec_pagination p l n)"
    by (simp add: list_response_pagination [OF nz])
next
  assume a: "snd (GET_pricing_plans e st req) = [c] \<and> error (st c) = None \<and> count (st c) = Some n"
  then have "fst (GET_pricing_plans e st req) = list_response (Fin (of_int p)) (Fin (of_int l)) (st c)"
    using GET_pricing_plans_run [of e st req c] by (simp add: pg lm)
  with a show "pagination_of (fst (GET_pricing_plans e st req)) = Some (spec_pagination p l n)"
    by (simp add: list_response_pagination [OF nz])
qed

text \<open>The example of the spec: page 2, limit 10 and 25 rows. The store of the example
  counts 25 members, 25 pricing plans and 25 transactions, and fails on any other call.\<close>

lemma members_not_uuid: "\<not> isUUID (last_segment ''/api/members'')"
  by code_simp

lemma no_stats: "\<not> str_includes ''/api/members'' ''/stats''"
  by code_simp

lemma parse_two: "parseInt ''2'' = Fin (of_int 2)"
  by code_simp

lemma parse_ten: "parseInt ''10'' = Fin (of_int 10)"
  by code_simp

lemma spec_pagination_example:
  "spec_pagination 2 10 25 =
     \<lparr>page = Some 2, limit = Some 10, total = Some 25, totalPages = Some 3,
      hasNext = True, hasPrev = True\<rparr>"
proof -
  have "\<lceil>(of_nat 25 :: rat) / of_int 10\<rceil> = 3"
    by (simp add: ceiling_eq_iff)
  then show ?thesis
    by (simp add: spec_pagination_def)
qed

lemma page_two_facts:
  "parseInt (or_default (searchParams_get page_two_request ''page'') ''1'') = Fin (of_int 2)"
  "parseInt (or_default (searchParams_get page_two_request ''limit'') ''10'') = Fin (of_int 10)"
  "validateApiKey sample_env page_two_request"
  "\<not> isUUID (last_segment (pathname page_two_request))"
  "\<not> str_includes (pathname page_two_request) ''/stats''"
proof -
  show "parseInt (or_default (searchParams_get page_two_request ''page'') ''1'') = Fin (of_int 2)"
    by (simp add: page_two_request_def mk_request_def searchParams_get_def admin_key_def
          or_default_def parse_two)
  show "parseInt (or_default (searchParams_get page_two_request ''limit'') ''10'') = Fin (of_int 10)"
    by (simp add: page_two_request_def mk_request_def searchParams_get_def admin_key_def
          or_default_def parse_ten)
  show "validateApiKey sample_env page_two_request"
    by (simp add: page_two_request_def validateApiKey_def searchParams_get_def mk_request_def
          admin_key_def sample_env_def)
  show "\<not> isUUID (last_segment (pathname page_two_request))"
    by (simp add: page_two_request_def mk_request_def members_not_uuid)
  show "\<not> str_includes (pathname page_two_request) ''/stats''"
    by (simp add: page_two_request_def mk_request_def no_stats)
qed

lemma page_two_calls:
  "snd (GET_members sample_env twenty_five_rows page_two_request) = [members_page_two]"
  "snd (GET_transactions sample_env twenty_five_rows page_two_request) = [transactions_page_two]"
  "snd (GET_pricing_plans sample_env twenty_five_rows page_two_request) = [plans_page_two]"
  by code_simp+

lemma twenty_five_rows_answers:
  "error (twenty_five_rows members_page_two) = None"
  "count (twenty_five_rows members_page_two) = Some 25"
  "error (twenty_five_rows transactions_page_two) = None"
  "count (twenty_five_rows transactions_page_two) = Some 25"
  "error (twenty_five_rows plans_page_two) = None"
  "count (twenty_five_rows plans_page_two) = Some 25"
  by code_simp+

theorem list_pagination_witness:
  "pagination_of (fst (GET_members sample_env twenty_five_rows page_two_request))
     = Some \<lparr>page = Some 2, limit = Some 10, total = Some 25, totalPages = Some 3,
             hasNext = True, hasPrev = True\<rparr>
   \<and> pagination_of (fst (GET_transactions sample_env twenty_five_rows page_two_request))
     = Some \<lparr>page = Some 2, limit = Some 10, total = Some 25, totalPages = Some 3,
             hasNext = True, hasPrev = True\<rparr>
   \<and> pagination_of (fst (GET_pricing_plans sample_env twenty_five_rows page_two_request))
     = Some \<lparr>page = Some 2, limit = Some 10, total = Some 25, totalPages = Some 3,
             hasNext = True, hasPrev = True\<rparr>"
proof -
  have nz: "(10::int) \<noteq> 0" and range: "\<bar>2::int\<bar> < 2 ^ 26" "\<bar>10::int\<bar> < 2 ^ 26" "(25::nat) < 2 ^ 53"
    by simp_all
  note inst = list_pagination [where req = page_two_request and st = twenty_five_rows
      and e = sample_env and p = 2 and l = 10 and n = 25,
      OF page_two_facts(1) page_two_facts(2) nz range]
  have m: "pagination_of (fst (GET_members sample_env twenty_five_rows page_two_request))
      = Some (spec_pagination 2 10 25)"
    using inst [of members_page_two] page_two_facts page_two_calls twenty_five_rows_answers
    by blast
  have t: "pagination_of (fst (GET_transactions sample_env twenty_five_rows page_two_request))
      = Some (spec_pagination 2 10 25)"
    using inst [of transactions_page_two] page_two_facts page_two_calls twenty_five_rows_answers
    by blast
  have pl: "pagination_of (fst (GET_pricing_plans sample_env twenty_five_rows page_two_request))
      = Some (spec_pagination 2 10 25)"
    using inst [of plans_page_two] page_two_facts page_two_calls twenty_five_rows_answers
    by blast
  from m t pl show ?thesis
    by (simp only: spec_pagination_example)
qed

subsection \<open>Reading one transaction\<close>

lemma anonymous_no_token: "validateMemberToken sample_env anonymous_request = Some JNull"
  by (simp add: validateMemberToken_def anonymous_request_def mk_request_def)

lemma anonymous_no_key: "\<not> validateApiKey sample_env anonymous_request"
  by (simp add: anonymous_request_def no_key_invalid)

lemma other_member_token:
  "validateMemberToken sample_env other_member_request = Some (JStr ''member-2'')"
  by (simp add: validateMemberToken_def other_member_request_def mk_request_def sample_env_def)

lemma other_member_no_key: "\<not> validateApiKey sample_env other_member_request"
  by (simp add: other_member_request_def no_key_invalid)

lemma transaction_found_row:
  "error (transaction_found c) = None"
  "data (transaction_found c) = sample_transaction"
  by (simp_all add: transaction_found_def answering_def ok_result_def)

lemma sample_transaction_owner:
  "sample_transaction = JObj [(''id'', JStr sample_uuid), (''member_id'', JStr ''member-1''), (''amount'', JNum 50),
           (''status'', JStr ''completed'')]"
  "map_of [(''id'', JStr sample_uuid), (''member_id'', JStr ''member-1''), (''amount'', JNum 50),
           (''status'', JStr ''completed'')] ''member_id'' = Some (JStr ''member-1'')"
  by (simp_all add: sample_transaction_def)

text \<open>
  C3. The claim says that \<open>GET /api/transactions/:id\<close> for an existing transaction answers
  401 to a caller with no valid admin key and no valid bearer token, and 403 to a member
  who is not the owner. The handler does the second (\<open>GET_transaction_not_owner\<close> below)
  but not the first: it never looks at whether a credential was presented. Its one guard,
  \<open>!isAdmin && authenticatedMemberId !== transaction.member_id\<close>, answers 403 to the
  caller without any credential.
\<close>

theorem GET_transaction_anonymous_403:
  "status (fst (GET_transaction sample_env transaction_found anonymous_request sample_uuid)) = 403
   \<and> status (fst (GET_transaction sample_env transaction_found anonymous_request sample_uuid)) \<noteq> 401"
  by (simp add: GET_transaction_def Let_def sample_uuid_isUUID transaction_found_row
        anonymous_no_key anonymous_no_token sample_transaction_def errorResponse_def)

text \<open>No input makes this handler answer 401.\<close>

lemma GET_transaction_never_401: "status (fst (GET_transaction e st req tid)) \<noteq> 401"
  by (simp add: GET_transaction_def Let_def errorResponse_def successResponse_def internal_error_def
        split: option.split)

text \<open>The profile handler, which authenticates with the same \<open>validateMemberToken\<close>,
  answers 401 to the same caller.\<close>

lemma GET_member_profile_anonymous_401:
  "GET_member_profile sample_env transaction_found anonymous_request
   = (errorResponse ''Invalid or missing authentication token'' 401, [])"
  by (simp add: GET_member_profile_def Let_def anonymous_no_token falsy_id_def)

text \<open>Because the guard compares the token's \<open>null\<close> with the owner, the same caller is
  let through to a transaction whose \<open>member_id\<close> is \<open>null\<close>.\<close>

lemma GET_transaction_orphan_anonymous_200:
  "status (fst (GET_transaction sample_env (answering (ok_result orphan_transaction None))
     anonymous_request sample_uuid)) = 200"
  by (simp add: GET_transaction_def Let_def sample_uuid_isUUID answering_def ok_result_def
        anonymous_no_key anonymous_no_token orphan_transaction_def successResponse_def)

text \<open>The second half of the claim: an existing transaction, no valid admin key, and a
  token that does not verify as the owner give 403.\<close>

lemma GET_transaction_not_owner:
  assumes "isUUID tid"
    and "error (st (transaction_query tid)) = None"
    and "data (st (transaction_query tid)) = JObj kvs"
    and "map_of kvs ''member_id'' = Some (JStr owner)"
    and "\<not> validateApiKey e req"
    and "validateMemberToken e req = Some (JStr other)" and "other \<noteq> owner"
  shows "status (fst (GET_transaction e st req tid)) = 403"
  using assms
  by (simp add: GET_transaction_def Let_def errorResponse_def)

lemma GET_transaction_other_member:
  "status (fst (GET_transaction sample_env transaction_found other_member_request sample_uuid)) = 403"
  using GET_transaction_not_owner [where e = sample_env and st = transaction_found
      and req = other_member_request and tid = sample_uuid and owner = "''member-1''"
      and other = "''member-2''", OF sample_uuid_isUUID transaction_found_row(1)]
    transaction_found_row(2) sample_transaction_owner other_member_no_key other_member_token
  by simp

text \<open>
  C10. \<open>GET /api/transactions/:id\<close> queries the store before it looks at any credential.
  For a caller with no valid admin key and no valid bearer token and a well-formed id
  \<open>tid\<close>, the handler issues the query \<open>q\<close> for the row of table \<open>transactions\<close> whose
  \<open>id\<close> is \<open>tid\<close>, and nothing else. The answer is 404 when the store reports no such row
  (\<open>PGRST116\<close>) and 403 when it returns the transaction.
\<close>

theorem GET_transaction_existence_leak:
  assumes "isUUID tid"
    and "\<not> validateApiKey e req"
    and "validateMemberToken e req = Some JNull"
    and "q = Select \<lparr>table = ''transactions'', columns = transaction_columns,
                     count_exact = False, head_only = False,
                     clauses = [Eq ''id'' (JStr tid)], single = True\<rparr>"
  shows "(error (st q) = Some err \<and> code err = ''PGRST116''
          \<longrightarrow> status (fst (GET_transaction e st req tid)) = 404
              \<and> snd (GET_transaction e st req tid) = [q])
       \<and> (error (st q) = None \<and> data (st q) = JObj kvs
            \<and> map_of kvs ''member_id'' = Some (JStr owner)
          \<longrightarrow> status (fst (GET_transaction e st req tid)) = 403
              \<and> snd (GET_transaction e st req tid) = [q])"
proof -
  have q: "transaction_query tid = q"
    using assms(4)
    by (simp add: transaction_query_def as_single_def with_clause_def from_select_def)
  show ?thesis
    using assms(1-3)
    by (simp add: GET_transaction_def Let_def errorResponse_def q)
qed

text \<open>The store of the example holds one transaction, under the sample id: it answers
  the query for that id with the row and the query for any other id with \<open>PGRST116\<close>.\<close>

lemma other_uuid_isUUID: "isUUID other_uuid"
  by code_simp

lemma one_transaction_answers:
  "error (one_transaction (transaction_by_id sample_uuid)) = None"
  "data (one_transaction (transaction_by_id sample_uuid)) = sample_transaction"
  "error (one_transaction (transaction_by_id other_uuid)) = Some (StoreError ''PGRST116'')"
  by code_simp+

theorem GET_transaction_existence_leak_witness:
  "status (fst (GET_transaction sample_env one_transaction anonymous_request other_uuid)) = 404
   \<and> snd (GET_transaction sample_env one_transaction anonymous_request other_uuid)
       = [transaction_by_id other_uuid]
   \<and> status (fst (GET_transaction sample_env one_transaction anonymous_request sample_uuid)) = 403
   \<and> snd (GET_transaction sample_env one_transaction anonymous_request sample_uuid)
       = [transaction_by_id sample_uuid]"
proof -
  have a: "status (fst (GET_transaction sample_env one_transaction anonymous_request other_uuid)) = 404
   \<and> snd (GET_transaction sample_env one_transaction anonymous_request other_uuid)
       = [transaction_by_id other_uuid]"
    using GET_transaction_existence_leak [where e = sample_env and st = one_transaction
      and req = anonymous_request and tid = other_uuid and err = "StoreError ''PGRST116''"
      and q = "transaction_by_id other_uuid",
      OF other_uuid_isUUID anonymous_no_key anonymous_no_token] one_transaction_answers
    by (simp add: transaction_by_id_def)
  have b: "status (fst (GET_transaction sample_env one_transaction anonymous_request sample_uuid)) = 403
   \<and> snd (GET_transaction sample_env one_transaction anonymous_request sample_uuid)
       = [transaction_by_id sample_uuid]"
    using GET_transaction_existence_leak [where e = sample_env and st = one_transaction
      and req = anonymous_request and tid = sample_uuid and owner = "''member-1''"
      and q = "transaction_by_id sample_uuid"
      and kvs = "[(''id'', JStr sample_uuid), (''member_id'', JStr ''member-1''), (''amount'', JNum 50),
           (''status'', JStr ''completed'')]",
      OF sample_uuid_isUUID anonymous_no_key anonymous_no_token]
      one_transaction_answers sample_transaction_owner
    by (simp add: transaction_by_id_def)
  from a b show ?thesis by blast
qed

subsection \<open>Defaults of create requests\<close>

text \<open>
  C8. \<open>POST /api/transactions\<close> with a valid admin key and a body that passes validation
  (the required fields are present, the amount is positive, the store finds the member, and
  the plan when one is given): when the body has no \<open>status\<close>, or an empty one, the one
  insert issued to the store carries the body with \<open>status\<close> set to \<open>pending\<close>.
\<close>

theorem POST_transactions_default_status:
  assumes "validateApiKey e req" and "json req = Some td"
    and "truthy_str (member_id td)" and "truthy_num (amount td)"
    and "truthy_str (payment_method td)" and "truthy_str (transaction_date td)"
    and "\<not> le_zero (amount td)"
    and "truthy (data (st (select_id ''members'' (member_id td))))"
    and "truthy_str (plan_id td) \<longrightarrow> truthy (data (st (select_id ''pricing_plans'' (plan_id td))))"
    and "\<not> truthy_str (transactionData.status td)"
  shows "filter is_insert (snd (POST_transactions e st req))
         = [Insert ''transactions''
              (TransactionValues (td\<lparr>transactionData.status := Some ''pending''\<rparr>))
              transaction_columns]"
proof -
  have dflt: "or_default (transactionData.status td) ''pending'' = ''pending''"
    using assms(10) by (simp add: or_default_def truthy_str_def split: option.splits)
  have ins: "\<And>issued. filter is_insert issued = [] \<Longrightarrow>
      filter is_insert (snd (insert_transaction st td issued))
      = [Insert ''transactions''
              (TransactionValues (td\<lparr>transactionData.status := Some ''pending''\<rparr>))
              transaction_columns]"
    by (simp add: insert_transaction_def Let_def dflt split: option.split)
  show ?thesis
    using assms(1-9)
    by (simp add: POST_transactions_def Let_def transaction_field_truthy_def ins select_id_def)
qed

theorem POST_transactions_default_status_witness:
  "validateApiKey sample_env create_payment_request
   \<and> json create_payment_request = Some sample_payment
   \<and> transactionData.status sample_payment = None
   \<and> filter is_insert (snd (POST_transactions sample_env member_found create_payment_request))
       = [Insert ''transactions''
            (TransactionValues (sample_payment\<lparr>transactionData.status := Some ''pending''\<rparr>))
            transaction_columns]"
proof -
  have key: "validateApiKey sample_env create_payment_request"
    by (simp add: create_payment_request_def admin_key_valid)
  have b: "json create_payment_request = Some sample_payment"
    by (simp add: create_payment_request_def mk_request_def)
  have fields: "truthy_str (member_id sample_payment)" "truthy_num (amount sample_payment)"
    "truthy_str (payment_method sample_payment)" "truthy_str (transaction_date sample_payment)"
    "\<not> le_zero (amount sample_payment)" "\<not> truthy_str (plan_id sample_payment)"
    "\<not> truthy_str (transactionData.status sample_payment)"
    "transactionData.status sample_payment = None"
    by (simp_all add: sample_payment_def truthy_str_def truthy_num_def le_zero_def)
  have found: "truthy (data (member_found (select_id ''members'' (member_id sample_payment))))"
    by (simp add: member_found_def answering_def ok_result_def)
  show ?thesis
    using POST_transactions_default_status [where e = sample_env and st = member_found
        and req = create_payment_request and td = sample_payment]
      key b fields found
    by simp
qed

text \<open>
  C9. \<open>POST /api/pricing_plans\<close> with a valid admin key and a body that passes validation:
  when the body has no \<open>is_active\<close> key, the plan is inserted with \<open>is_active = true\<close>;
  when it has one, the body is inserted as it is, \<open>true\<close> or \<open>false\<close> alike (and so is
  a \<open>null\<close>, which the test \<open>!== undefined\<close> lets through).
\<close>

theorem POST_pricing_plans_is_active:
  assumes "validateApiKey e req" and "json req = Some pd"
    and "field_truthy_str (name pd)" and "field_truthy_num (price pd)"
    and "field_truthy_num (duration_days pd)"
    and "\<not> field_le_zero (price pd)" and "\<not> field_le_zero (duration_days pd)"
  shows "(is_active pd = Absent \<longrightarrow>
            snd (POST_pricing_plans e st req)
              = [Insert ''pricing_plans'' (PlanValues (pd\<lparr>is_active := Given True\<rparr>)) ''*''])
       \<and> (is_active pd \<noteq> Absent \<longrightarrow>
            snd (POST_pricing_plans e st req) = [Insert ''pricing_plans'' (PlanValues pd) ''*''])"
proof (intro conjI impI)
  assume "is_active pd = Absent"
  with assms show "snd (POST_pricing_plans e st req)
              = [Insert ''pricing_plans'' (PlanValues (pd\<lparr>is_active := Given True\<rparr>)) ''*'']"
    by (simp add: POST_pricing_plans_def Let_def plan_field_truthy_def split: option.split)
next
  assume a: "is_active pd \<noteq> Absent"
  have same: "pd\<lparr>is_active := is_active pd\<rparr> = pd" by simp
  from assms a show "snd (POST_pricing_plans e st req) = [Insert ''pricing_plans'' (PlanValues pd) ''*'']"
    by (simp add: POST_pricing_plans_def Let_def plan_field_truthy_def same split: option.split)
qed

theorem POST_pricing_plans_is_active_witness:
  "snd (POST_pricing_plans sample_env quiet_store (create_silver_request Absent))
     = [Insert ''pricing_plans'' (PlanValues (silver_plan\<lparr>is_active := Given True\<rparr>)) ''*'']
   \<and> snd (POST_pricing_plans sample_env quiet_store (create_silver_request (Given False)))
     = [Insert ''pricing_plans'' (PlanValues (silver_plan\<lparr>is_active := Given False\<rparr>)) ''*'']
   \<and> snd (POST_pricing_plans sample_env quiet_store (create_silver_request (Given True)))
     = [Insert ''pricing_plans'' (PlanValues (silver_plan\<lparr>is_active := Given True\<rparr>)) ''*'']
   \<and> snd (POST_pricing_plans sample_env quiet_store (create_silver_request Null))
     = [Insert ''pricing_plans'' (PlanValues (silver_plan\<lparr>is_active := Null\<rparr>)) ''*'']"
proof -
  have key: "\<And>a. validateApiKey sample_env (create_silver_request a)"
    by (simp add: create_silver_request_def admin_key_valid)
  have b: "\<And>a. json (create_silver_request a) = Some (silver_plan\<lparr>is_active := a\<rparr>)"
    by (simp add: create_silver_request_def mk_request_def)
  have fields: "\<And>a. field_truthy_str (name (silver_plan\<lparr>is_active := a\<rparr>))"
    "\<And>a. field_truthy_num (price (silver_plan\<lparr>is_active := a\<rparr>))"
    "\<And>a. field_truthy_num (duration_days (silver_plan\<lparr>is_active := a\<rparr>))"
    "\<And>a. \<not> field_le_zero (price (silver_plan\<lparr>is_active := a\<rparr>))"
    "\<And>a. \<not> field_le_zero (duration_days (silver_plan\<lparr>is_active := a\<rparr>))"
    by (simp_all add: silver_plan_def)
  have run: "\<And>a. (a = Absent \<longrightarrow>
        snd (POST_pricing_plans sample_env quiet_store (create_silver_request a))
          = [Insert ''pricing_plans'' (PlanValues (silver_plan\<lparr>is_active := Given True\<rparr>)) ''*''])
      \<and> (a \<noteq> Absent \<longrightarrow>
        snd (POST_pricing_plans sample_env quiet_store (create_silver_request a))
          = [Insert ''pricing_plans'' (PlanValues (silver_plan\<lparr>is_active := a\<rparr>)) ''*''])"
    using POST_pricing_plans_is_active [where e = sample_env and st = quiet_store, OF key b fields]
    by simp
  show ?thesis
    using run [of Absent] run [of "Given False"] run [of "Given True"] run [of Null]
    by simp
qed

subsection \<open>The phone check\<close>

lemma abc_rejected: "\<not> test_value phoneRegex (Some ''abc'')"
  by code_simp

lemma good_phone_accepted: "test_value phoneRegex (Some ''+1 555-123-4567'')"
  by code_simp

lemma POST_members_abc:
  assumes "validateApiKey e req" and "json req = Some b" and "phone b = Some ''abc''"
  shows "status (fst (POST_members e st req)) = 400 \<and> snd (POST_members e st req) = []"
  using assms abc_rejected
  by (simp add: POST_members_def Let_def errorResponse_def)

lemma PUT_members_abc:
  assumes "validateApiKey e req" and "last_segment (pathname req) \<noteq> []"
    and "last_segment (pathname req) \<noteq> ''members''"
    and "json req = Some u" and "phone u = Some ''abc''"
  shows "status (fst (PUT_members e st req)) = 400 \<and> snd (PUT_members e st req) = []"
  using assms abc_rejected
  by (simp add: PUT_members_def Let_def errorResponse_def truthy_str_def)

lemma POST_members_good_phone:
  assumes "validateApiKey e req" and "json req = Some b" and "phone b = Some ''+1 555-123-4567''"
    and "truthy_str (first_name b)" and "truthy_str (last_name b)" and "truthy_str (email b)"
    and "test_value emailRegex (email b)"
  shows "status (fst (POST_members e st req)) \<noteq> 400
       \<and> snd (POST_members e st req) = [Insert ''members'' (MemberValues b) ''*'']"
  using assms good_phone_accepted
  by (simp add: POST_members_def Let_def errorResponse_def successResponse_def member_field_def truthy_str_def
        split: option.split)

lemma PUT_members_good_phone:
  assumes "validateApiKey e req" and "last_segment (pathname req) \<noteq> []"
    and "last_segment (pathname req) \<noteq> ''members''"
    and "json req = Some u" and "phone u = Some ''+1 555-123-4567''"
    and "\<not> truthy_str (email u) \<or> test_value emailRegex (email u)"
  shows "status (fst (PUT_members e st req)) \<noteq> 400
       \<and> snd (PUT_members e st req)
           = [Update ''members'' (MemberChanges (u\<lparr>id_field := None\<rparr>) (now_iso e))
                [Eq ''id'' (JStr (last_segment (pathname req)))] ''*'']"
  using assms good_phone_accepted
  by (auto simp add: PUT_members_def Let_def errorResponse_def successResponse_def truthy_str_def
        split: option.split)

text \<open>
  C7. The phone pattern rejects \<open>abc\<close> and accepts \<open>+1 555-123-4567\<close>. In member create
  and member update, a request with a valid admin key whose phone is \<open>abc\<close> is answered
  400 and nothing is sent to the store. With the phone \<open>+1 555-123-4567\<close> and the other
  checks passed (on create the other required fields present and the email well-formed,
  on update no email or a well-formed one), the answer is not 400 and the insert or the
  update is issued.
\<close>

theorem phone_check_abc_and_sample:
  "\<not> regex_test phoneRegex ''abc'' \<and> regex_test phoneRegex ''+1 555-123-4567''
   \<and> (validateApiKey e req \<and> json req = Some b \<and> phone b = Some ''abc''
        \<longrightarrow> status (fst (POST_members e st req)) = 400 \<and> snd (POST_members e st req) = [])
   \<and> (validateApiKey e req' \<and> last_segment (pathname req') \<noteq> []
          \<and> last_segment (pathname req') \<noteq> ''members''
          \<and> json req' = Some u \<and> phone u = Some ''abc''
        \<longrightarrow> status (fst (PUT_members e st req')) = 400 \<and> snd (PUT_members e st req') = [])
   \<and> (validateApiKey e req \<and> json req = Some b \<and> phone b = Some ''+1 555-123-4567''
          \<and> truthy_str (first_name b) \<and> truthy_str (last_name b) \<and> truthy_str (email b)
          \<and> test_value emailRegex (email b)
        \<longrightarrow> status (fst (POST_members e st req)) \<noteq> 400
            \<and> snd (POST_members e st req) = [Insert ''members'' (MemberValues b) ''*''])
   \<and> (validateApiKey e req' \<and> last_segment (pathname req') \<noteq> []
          \<and> last_segment (pathname req') \<noteq> ''members''
          \<and> json req' = Some u \<and> phone u = Some ''+1 555-123-4567''
          \<and> (\<not> truthy_str (email u) \<or> test_value emailRegex (email u))
        \<longrightarrow> status (fst (PUT_members e st req')) \<noteq> 400
            \<and> snd (PUT_members e st req')
                = [Update ''members'' (MemberChanges (u\<lparr>id_field := None\<rparr>) (now_iso e))
                     [Eq ''id'' (JStr (last_segment (pathname req')))] ''*''])"
proof (intro conjI impI)
  show "\<not> regex_test phoneRegex ''abc''"
    using abc_rejected by (simp add: test_value_def)
  show "regex_test phoneRegex ''+1 555-123-4567''"
    using good_phone_accepted by (simp add: test_value_def)
qed (simp_all add: POST_members_abc PUT_members_abc POST_members_good_phone PUT_members_good_phone)

lemma put_member_facts:
  "validateApiKey sample_env (put_member u)"
  "last_segment (pathname (put_member u)) = sample_uuid"
  "json (put_member u) = Some u"
  by (simp add: put_member_def admin_key_valid, code_simp, simp add: put_member_def mk_request_def)

theorem phone_check_abc_and_sample_witness:
  "status (fst (POST_members sample_env quiet_store (post_member abc_member))) = 400
   \<and> status (fst (PUT_members sample_env quiet_store (put_member (new_phone ''abc'')))) = 400
   \<and> snd (POST_members sample_env quiet_store (post_member sample_member))
       = [Insert ''members'' (MemberValues sample_member) ''*'']
   \<and> snd (PUT_members sample_env quiet_store (put_member (new_phone ''+1 555-123-4567'')))
       = [Update ''members'' (MemberChanges (new_phone ''+1 555-123-4567'') (now_iso sample_env))
            [Eq ''id'' (JStr sample_uuid)] ''*'']"
proof -
  have post: "\<And>b. validateApiKey sample_env (post_member b)" "\<And>b. json (post_member b) = Some b"
    by (simp add: post_member_def admin_key_valid, simp add: post_member_def mk_request_def)
  have seg: "sample_uuid \<noteq> []" "sample_uuid \<noteq> ''members''"
    by (simp_all add: sample_uuid_def)
  have abc: "phone abc_member = Some ''abc''" "phone (new_phone ''abc'') = Some ''abc''"
    by (simp_all add: abc_member_def new_phone_def)
  have good: "phone sample_member = Some ''+1 555-123-4567''"
    "phone (new_phone ''+1 555-123-4567'') = Some ''+1 555-123-4567''"
    "\<not> truthy_str (email (new_phone ''+1 555-123-4567''))"
    "(new_phone ''+1 555-123-4567'')\<lparr>id_field := None\<rparr> = new_phone ''+1 555-123-4567''"
    by (simp_all add: sample_member_def new_phone_def no_changes_def truthy_str_def)
  have rejected: "status (fst (POST_members sample_env quiet_store (post_member abc_member))) = 400
      \<and> status (fst (PUT_members sample_env quiet_store (put_member (new_phone ''abc'')))) = 400"
    using phone_check_abc_and_sample [where e = sample_env and st = quiet_store
        and req = "post_member abc_member" and b = abc_member
        and req' = "put_member (new_phone ''abc'')" and u = "new_phone ''abc''"]
      post put_member_facts seg abc
    by simp
  have accepted: "snd (POST_members sample_env quiet_store (post_member sample_member))
       = [Insert ''members'' (MemberValues sample_member) ''*'']
   \<and> snd (PUT_members sample_env quiet_store (put_member (new_phone ''+1 555-123-4567'')))
       = [Update ''members'' (MemberChanges (new_phone ''+1 555-123-4567'') (now_iso sample_env))
            [Eq ''id'' (JStr sample_uuid)] ''*'']"
    using phone_check_abc_and_sample [where e = sample_env and st = quiet_store
        and req = "post_member sample_member" and b = sample_member
        and req' = "put_member (new_phone ''+1 555-123-4567'')" and u = "new_phone ''+1 555-123-4567''"]
      post put_member_facts seg good sample_member_present sample_email_ok
    by simp
  from rejected accepted show ?thesis by blast
qed

subsection \<open>Validation of create requests\<close>

lemma bad_email_and_phone_invalid:
  "\<not> test_value emailRegex (email bad_email_and_phone)"
  "\<not> test_value phoneRegex (phone bad_email_and_phone)"
  "truthy_str (first_name bad_email_and_phone)" "truthy_str (last_name bad_email_and_phone)"
  "truthy_str (phone bad_email_and_phone)" "truthy_str (email bad_email_and_phone)"
  by code_simp+

lemma post_member_facts:
  "validateApiKey sample_env (post_member b)" "json (post_member b) = Some b"
  by (simp add: post_member_def admin_key_valid, simp add: post_member_def mk_request_def)

text \<open>
  C4, as stated, fails. The claim says that a member create request whose email and phone
  are both malformed is answered with one 400 response that reports both fields. The
  handler returns at the first failed check: the response is \<open>Invalid email format\<close> and
  does not name the phone.
\<close>

theorem POST_members_reports_email_only:
  "\<not> test_value emailRegex (email bad_email_and_phone)
   \<and> \<not> test_value phoneRegex (phone bad_email_and_phone)
   \<and> POST_members sample_env quiet_store (post_member bad_email_and_phone)
       = (errorResponse ''Invalid email format'' 400, [])
   \<and> \<not> names_field (fst (POST_members sample_env quiet_store (post_member bad_email_and_phone))) ''phone''"
proof -
  have r: "POST_members sample_env quiet_store (post_member bad_email_and_phone)
       = (errorResponse ''Invalid email format'' 400, [])"
    using bad_email_and_phone_invalid
    by (simp add: POST_members_def post_member_facts member_field_def Let_def)
  have n: "\<not> names_field (errorResponse ''Invalid email format'' 400) ''phone''"
    by code_simp
  from r n bad_email_and_phone_invalid show ?thesis by simp
qed

text \<open>The three create handlers, check by check. The list of missing fields is
  described by the fields of the body themselves.\<close>

lemma POST_members_validation:
  assumes "validateApiKey e req" and "json req = Some b"
  shows "(\<not> truthy_str (first_name b) \<or> \<not> truthy_str (last_name b)
            \<or> \<not> truthy_str (phone b) \<or> \<not> truthy_str (email b) \<longrightarrow>
          (\<exists>ms. POST_members e st req = missing_response ms
            \<and> set ms \<subseteq> {''first_name'', ''last_name'', ''phone'', ''email''}
            \<and> (''first_name'' \<in> set ms \<longleftrightarrow> \<not> truthy_str (first_name b))
            \<and> (''last_name'' \<in> set ms \<longleftrightarrow> \<not> truthy_str (last_name b))
            \<and> (''phone'' \<in> set ms \<longleftrightarrow> \<not> truthy_str (phone b))
            \<and> (''email'' \<in> set ms \<longleftrightarrow> \<not> truthy_str (email b))))
       \<and> (truthy_str (first_name b) \<and> truthy_str (last_name b)
            \<and> truthy_str (phone b) \<and> truthy_str (email b)
            \<and> \<not> test_value emailRegex (email b) \<longrightarrow>
            POST_members e st req = (errorResponse ''Invalid email format'' 400, []))
       \<and> (truthy_str (first_name b) \<and> truthy_str (last_name b)
            \<and> truthy_str (phone b) \<and> truthy_str (email b)
            \<and> test_value emailRegex (email b) \<and> \<not> test_value phoneRegex (phone b) \<longrightarrow>
            POST_members e st req = (errorResponse ''Invalid phone format'' 400, []))"
proof (intro conjI impI)
  let ?ms = "filter (\<lambda>f. \<not> truthy_str (member_field b f))
               [''first_name'', ''last_name'', ''phone'', ''email'']"
  assume miss: "\<not> truthy_str (first_name b) \<or> \<not> truthy_str (last_name b)
            \<or> \<not> truthy_str (phone b) \<or> \<not> truthy_str (email b)"
  have sub: "set ?ms \<subseteq> {''first_name'', ''last_name'', ''phone'', ''email''}"
    by (rule subset_trans [OF filter_is_subset]) simp
  have mem: "''first_name'' \<in> set ?ms \<longleftrightarrow> \<not> truthy_str (first_name b)"
    "''last_name'' \<in> set ?ms \<longleftrightarrow> \<not> truthy_str (last_name b)"
    "''phone'' \<in> set ?ms \<longleftrightarrow> \<not> truthy_str (phone b)"
    "''email'' \<in> set ?ms \<longleftrightarrow> \<not> truthy_str (email b)"
    by (simp_all add: member_field_def)
  have nonempty: "?ms \<noteq> []"
  proof
    assume "?ms = []"
    then have "\<And>f. f \<notin> set ?ms" by simp
    with miss mem show False by metis
  qed
  with assms have run: "POST_members e st req = missing_response ?ms"
    by (simp add: POST_members_def Let_def missing_response_def)
  from run sub mem show "\<exists>ms. POST_members e st req = missing_response ms
            \<and> set ms \<subseteq> {''first_name'', ''last_name'', ''phone'', ''email''}
            \<and> (''first_name'' \<in> set ms \<longleftrightarrow> \<not> truthy_str (first_name b))
            \<and> (''last_name'' \<in> set ms \<longleftrightarrow> \<not> truthy_str (last_name b))
            \<and> (''phone'' \<in> set ms \<longleftrightarrow> \<not> truthy_str (phone b))
            \<and> (''email'' \<in> set ms \<longleftrightarrow> \<not> truthy_str (email b))"
    by (intro exI [of _ ?ms]) simp
qed (use assms in \<open>simp_all add: POST_members_def Let_def member_field_def\<close>)

lemma POST_pricing_plans_validation:
  assumes "validateApiKey e req" and "json req = Some b"
    and "price b \<noteq> Given 0" and "duration_days b \<noteq> Given 0"
  shows "(\<not> field_truthy_str (name b) \<or> price b = Absent \<or> price b = Null
            \<or> duration_days b = Absent \<or> duration_days b = Null \<longrightarrow>
          (\<exists>ms. POST_pricing_plans e st req = missing_response ms
            \<and> set ms \<subseteq> {''name'', ''price'', ''duration_days''}
            \<and> (''name'' \<in> set ms \<longleftrightarrow> \<not> field_truthy_str (name b))
            \<and> (''price'' \<in> set ms \<longleftrightarrow> price b = Absent \<or> price b = Null)
            \<and> (''duration_days'' \<in> set ms
                 \<longleftrightarrow> duration_days b = Absent \<or> duration_days b = Null)))
       \<and> (field_truthy_str (name b) \<and> (\<exists>r. price b = Given r \<and> r < 0)
            \<and> (\<exists>d. duration_days b = Given d) \<longrightarrow>
            POST_pricing_plans e st req = (errorResponse ''Price must be greater than 0'' 400, []))
       \<and> (field_truthy_str (name b) \<and> (\<exists>r. price b = Given r \<and> 0 < r)
            \<and> (\<exists>d. duration_days b = Given d \<and> d < 0) \<longrightarrow>
            POST_pricing_plans e st req
              = (errorResponse ''Duration days must be greater than 0'' 400, []))"
proof (intro conjI impI)
  let ?ms = "filter (\<lambda>f. \<not> plan_field_truthy b f) [''name'', ''price'', ''duration_days'']"
  assume miss: "\<not> field_truthy_str (name b) \<or> price b = Absent \<or> price b = Null
            \<or> duration_days b = Absent \<or> duration_days b = Null"
  have p: "field_truthy_num (price b) \<longleftrightarrow> \<not> (price b = Absent \<or> price b = Null)"
    using assms(3) by (cases "price b") simp_all
  have d: "field_truthy_num (duration_days b) \<longleftrightarrow> \<not> (duration_days b = Absent \<or> duration_days b = Null)"
    using assms(4) by (cases "duration_days b") simp_all
  have sub: "set ?ms \<subseteq> {''name'', ''price'', ''duration_days''}"
    by (rule subset_trans [OF filter_is_subset]) simp
  have mem: "''name'' \<in> set ?ms \<longleftrightarrow> \<not> field_truthy_str (name b)"
    "''price'' \<in> set ?ms \<longleftrightarrow> \<not> field_truthy_num (price b)"
    "''duration_days'' \<in> set ?ms \<longleftrightarrow> \<not> field_truthy_num (duration_days b)"
    by (simp_all add: plan_field_truthy_def)
  have nonempty: "?ms \<noteq> []"
  proof
    assume "?ms = []"
    then have "\<And>f. f \<notin> set ?ms" by simp
    with miss mem p d show False by metis
  qed
  with assms have run: "POST_pricing_plans e st req = missing_response ?ms"
    by (simp add: POST_pricing_plans_def Let_def missing_response_def)
  from run sub mem p d show "\<exists>ms. POST_pricing_plans e st req = missing_response ms
            \<and> set ms \<subseteq> {''name'', ''price'', ''duration_days''}
            \<and> (''name'' \<in> set ms \<longleftrightarrow> \<not> field_truthy_str (name b))
            \<and> (''price'' \<in> set ms \<longleftrightarrow> price b = Absent \<or> price b = Null)
            \<and> (''duration_days'' \<in> set ms
                 \<longleftrightarrow> duration_days b = Absent \<or> duration_days b = Null)"
    by (intro exI [of _ ?ms]) simp
next
  assume "field_truthy_str (name b) \<and> (\<exists>r. price b = Given r \<and> r < 0)
            \<and> (\<exists>d. duration_days b = Given d)"
  then obtain r d where "field_truthy_str (name b)" "price b = Given r" "r < 0"
      "duration_days b = Given d"
    by blast
  with assms show "POST_pricing_plans e st req = (errorResponse ''Price must be greater than 0'' 400, [])"
    by (simp add: POST_pricing_plans_def Let_def plan_field_truthy_def)
next
  assume "field_truthy_str (name b) \<and> (\<exists>r. price b = Given r \<and> 0 < r)
            \<and> (\<exists>d. duration_days b = Given d \<and> d < 0)"
  then obtain r d where "field_truthy_str (name b)" "price b = Given r" "0 < r"
      "duration_days b = Given d" "d < 0"
    by blast
  with assms show "POST_pricing_plans e st req
              = (errorResponse ''Duration days must be greater than 0'' 400, [])"
    by (simp add: POST_pricing_plans_def Let_def plan_field_truthy_def)
qed

lemma POST_transactions_validation:
  assumes "validateApiKey e req" and "json req = Some b" and "amount b \<noteq> Some 0"
  shows "(\<not> truthy_str (member_id b) \<or> amount b = None
            \<or> \<not> truthy_str (payment_method b) \<or> \<not> truthy_str (transaction_date b) \<longrightarrow>
          (\<exists>ms. POST_transactions e st req = missing_response ms
            \<and> set ms \<subseteq> {''member_id'', ''amount'', ''payment_method'', ''transaction_date''}
            \<and> (''member_id'' \<in> set ms \<longleftrightarrow> \<not> truthy_str (member_id b))
            \<and> (''amount'' \<in> set ms \<longleftrightarrow> amount b = None)
            \<and> (''payment_method'' \<in> set ms \<longleftrightarrow> \<not> truthy_str (payment_method b))
            \<and> (''transaction_date'' \<in> set ms \<longleftrightarrow> \<not> truthy_str (transaction_date b))))
       \<and> (truthy_str (member_id b) \<and> (\<exists>a. amount b = Some a \<and> a < 0)
            \<and> truthy_str (payment_method b) \<and> truthy_str (transaction_date b) \<longrightarrow>
            POST_transactions e st req = (errorResponse ''Amount must be greater than 0'' 400, []))"
proof (intro conjI impI)
  let ?ms = "filter (\<lambda>f. \<not> transaction_field_truthy b f)
               [''member_id'', ''amount'', ''payment_method'', ''transaction_date'']"
  assume miss: "\<not> truthy_str (member_id b) \<or> amount b = None
            \<or> \<not> truthy_str (payment_method b) \<or> \<not> truthy_str (transaction_date b)"
  have a: "truthy_num (amount b) \<longleftrightarrow> amount b \<noteq> None"
    using assms(3) by (cases "amount b") (simp_all add: truthy_num_def)
  have sub: "set ?ms \<subseteq> {''member_id'', ''amount'', ''payment_method'', ''transaction_date''}"
    by (rule subset_trans [OF filter_is_subset]) simp
  have mem: "''member_id'' \<in> set ?ms \<longleftrightarrow> \<not> truthy_str (member_id b)"
    "''amount'' \<in> set ?ms \<longleftrightarrow> \<not> truthy_num (amount b)"
    "''payment_method'' \<in> set ?ms \<longleftrightarrow> \<not> truthy_str (payment_method b)"
    "''transaction_date'' \<in> set ?ms \<longleftrightarrow> \<not> truthy_str (transaction_date b)"
    by (simp_all add: transaction_field_truthy_def)
  have nonempty: "?ms \<noteq> []"
  proof
    assume "?ms = []"
    then have "\<And>f. f \<notin> set ?ms" by simp
    with miss mem a show False by metis
  qed
  with assms have run: "POST_transactions e st req = missing_response ?ms"
    by (simp add: POST_transactions_def Let_def missing_response_def)
  from run sub mem a show "\<exists>ms. POST_transactions e st req = missing_response ms
            \<and> set ms \<subseteq> {''member_id'', ''amount'', ''payment_method'', ''transaction_date''}
            \<and> (''member_id'' \<in> set ms \<longleftrightarrow> \<not> truthy_str (member_id b))
            \<and> (''amount'' \<in> set ms \<longleftrightarrow> amount b = None)
            \<and> (''payment_method'' \<in> set ms \<longleftrightarrow> \<not> truthy_str (payment_method b))
            \<and> (''transaction_date'' \<in> set ms \<longleftrightarrow> \<not> truthy_str (transaction_date b))"
    by (intro exI [of _ ?ms]) simp
next
  assume "truthy_str (member_id b) \<and> (\<exists>a. amount b = Some a \<and> a < 0)
            \<and> truthy_str (payment_method b) \<and> truthy_str (transaction_date b)"
  then obtain a where "truthy_str (member_id b)" "amount b = Some a" "a < 0"
      "truthy_str (payment_method b)" "truthy_str (transaction_date b)"
    by blast
  with assms show "POST_transactions e st req = (errorResponse ''Amount must be greater than 0'' 400, [])"
    by (simp add: POST_transactions_def Let_def transaction_field_truthy_def truthy_num_def le_zero_def)
qed

text \<open>
  C4, amended. For a create request (member, pricing plan, transaction) with a valid admin
  key and a parsed body, a violated field check is answered with one 400 response and
  nothing is sent to the store. Required fields that are missing (the key is absent or
  \<open>null\<close>, or a text field is empty) are reported together: the \<open>missing\<close> list names
  every one of them and nothing else. The format and range checks run only when no
  required field is missing, one after the other, and the response reports the first that
  fails: an invalid email whatever the phone, an invalid phone only with a valid email, a
  negative price whatever the duration, a negative duration only with a positive price.
  A price, a duration or an amount equal to zero is not covered by this statement.
\<close>

theorem create_validation_first_violation:
  "(validateApiKey e reqm \<and> json reqm = Some m \<longrightarrow>
      (\<not> truthy_str (first_name m) \<or> \<not> truthy_str (last_name m)
         \<or> \<not> truthy_str (phone m) \<or> \<not> truthy_str (email m) \<longrightarrow>
       (\<exists>ms. POST_members e st reqm = missing_response ms
         \<and> set ms \<subseteq> {''first_name'', ''last_name'', ''phone'', ''email''}
         \<and> (''first_name'' \<in> set ms \<longleftrightarrow> \<not> truthy_str (first_name m))
         \<and> (''last_name'' \<in> set ms \<longleftrightarrow> \<not> truthy_str (last_name m))
         \<and> (''phone'' \<in> set ms \<longleftrightarrow> \<not> truthy_str (phone m))
         \<and> (''email'' \<in> set ms \<longleftrightarrow> \<not> truthy_str (email m))))
    \<and> (truthy_str (first_name m) \<and> truthy_str (last_name m)
         \<and> truthy_str (phone m) \<and> truthy_str (email m)
         \<and> \<not> test_value emailRegex (email m) \<longrightarrow>
         POST_members e st reqm = (errorResponse ''Invalid email format'' 400, []))
    \<and> (truthy_str (first_name m) \<and> truthy_str (last_name m)
         \<and> truthy_str (phone m) \<and> truthy_str (email m)
         \<and> test_value emailRegex (email m) \<and> \<not> test_value phoneRegex (phone m) \<longrightarrow>
         POST_members e st reqm = (errorResponse ''Invalid phone format'' 400, [])))
   \<and> (validateApiKey e reqp \<and> json reqp = Some pl
        \<and> price pl \<noteq> Given 0 \<and> duration_days pl \<noteq> Given 0 \<longrightarrow>
      (\<not> field_truthy_str (name pl) \<or> price pl = Absent \<or> price pl = Null
         \<or> duration_days pl = Absent \<or> duration_days pl = Null \<longrightarrow>
       (\<exists>ms. POST_pricing_plans e st reqp = missing_response ms
         \<and> set ms \<subseteq> {''name'', ''price'', ''duration_days''}
         \<and> (''name'' \<in> set ms \<longleftrightarrow> \<not> field_truthy_str (name pl))
         \<and> (''price'' \<in> set ms \<longleftrightarrow> price pl = Absent \<or> price pl = Null)
         \<and> (''duration_days'' \<in> set ms
              \<longleftrightarrow> duration_days pl = Absent \<or> duration_days pl = Null)))
    \<and> (field_truthy_str (name pl) \<and> (\<exists>r. price pl = Given r \<and> r < 0)
         \<and> (\<exists>d. duration_days pl = Given d) \<longrightarrow>
         POST_pricing_plans e st reqp = (errorResponse ''Price must be greater than 0'' 400, []))
    \<and> (field_truthy_str (name pl) \<and> (\<exists>r. price pl = Given r \<and> 0 < r)
         \<and> (\<exists>d. duration_days pl = Given d \<and> d < 0) \<longrightarrow>
         POST_pricing_plans e st reqp
           = (errorResponse ''Duration days must be greater than 0'' 400, [])))
   \<and> (validateApiKey e reqt \<and> json reqt = Some td \<and> amount td \<noteq> Some 0 \<longrightarrow>
      (\<not> truthy_str (member_id td) \<or> amount td = None
         \<or> \<not> truthy_str (payment_method td) \<or> \<not> truthy_str (transaction_date td) \<longrightarrow>
       (\<exists>ms. POST_transactions e st reqt = missing_response ms
         \<and> set ms \<subseteq> {''member_id'', ''amount'', ''payment_method'', ''transaction_date''}
         \<and> (''member_id'' \<in> set ms \<longleftrightarrow> \<not> truthy_str (member_id td))
         \<and> (''amount'' \<in> set ms \<longleftrightarrow> amount td = None)
         \<and> (''payment_method'' \<in> set ms \<longleftrightarrow> \<not> truthy_str (payment_method td))
         \<and> (''transaction_date'' \<in> set ms \<longleftrightarrow> \<not> truthy_str (transaction_date td))))
    \<and> (truthy_str (member_id td) \<and> (\<exists>a. amount td = Some a \<and> a < 0)
         \<and> truthy_str (payment_method td) \<and> truthy_str (transaction_date td) \<longrightarrow>
         POST_transactions e st reqt = (errorResponse ''Amount must be greater than 0'' 400, [])))"
proof (intro conjI)
  show "validateApiKey e reqm \<and> json reqm = Some m \<longrightarrow>
      (\<not> truthy_str (first_name m) \<or> \<not> truthy_str (last_name m)
         \<or> \<not> truthy_str (phone m) \<or> \<not> truthy_str (email m) \<longrightarrow>
       (\<exists>ms. POST_members e st reqm = missing_response ms
         \<and> set ms \<subseteq> {''first_name'', ''last_name'', ''phone'', ''email''}
         \<and> (''first_name'' \<in> set ms \<longleftrightarrow> \<not> truthy_str (first_name m))
         \<and> (''last_name'' \<in> set ms \<longleftrightarrow> \<not> truthy_str (last_name m))
         \<and> (''phone'' \<in> set ms \<longleftrightarrow> \<not> truthy_str (phone m))
         \<and> (''email'' \<in> set ms \<longleftrightarrow> \<not> truthy_str (email m))))
    \<and> (truthy_str (first_name m) \<and> truthy_str (last_name m)
         \<and> truthy_str (phone m) \<and> truthy_str (email m)
         \<and> \<not> test_value emailRegex (email m) \<longrightarrow>
         POST_members e st reqm = (errorResponse ''Invalid email format'' 400, []))
    \<and> (truthy_str (first_name m) \<and> truthy_str (last_name m)
         \<and> truthy_str (phone m) \<and> truthy_str (email m)
         \<and> test_value emailRegex (email m) \<and> \<not> test_value phoneRegex (phone m) \<longrightarrow>
         POST_members e st reqm = (errorResponse ''Invalid phone format'' 400, []))"
    using POST_members_validation [of e reqm m st] by (intro impI) (elim conjE)
  show "validateApiKey e reqp \<and> json reqp = Some pl
        \<and> price pl \<noteq> Given 0 \<and> duration_days pl \<noteq> Given 0 \<longrightarrow>
      (\<not> field_truthy_str (name pl) \<or> price pl = Absent \<or> price pl = Null
         \<or> duration_days pl = Absent \<or> duration_days pl = Null \<longrightarrow>
       (\<exists>ms. POST_pricing_plans e st reqp = missing_response ms
         \<and> set ms \<subseteq> {''name'', ''price'', ''duration_days''}
         \<and> (''name'' \<in> set ms \<longleftrightarrow> \<not> field_truthy_str (name pl))
         \<and> (''price'' \<in> set ms \<longleftrightarrow> price pl = Absent \<or> price pl = Null)
         \<and> (''duration_days'' \<in> set ms
              \<longleftrightarrow> duration_days pl = Absent \<or> duration_days pl = Null)))
    \<and> (field_truthy_str (name pl) \<and> (\<exists>r. price pl = Given r \<and> r < 0)
         \<and> (\<exists>d. duration_days pl = Given d) \<longrightarrow>
         POST_pricing_plans e st reqp = (errorResponse ''Price must be greater than 0'' 400, []))
    \<and> (field_truthy_str (name pl) \<and> (\<exists>r. price pl = Given r \<and> 0 < r)
         \<and> (\<exists>d. duration_days pl = Given d \<and> d < 0) \<longrightarrow>
         POST_pricing_plans e st reqp
           = (errorResponse ''Duration days must be greater than 0'' 400, []))"
    using POST_pricing_plans_validation [of e reqp pl st] by (intro impI) (elim conjE)
  show "validateApiKey e reqt \<and> json reqt = Some td \<and> amount td \<noteq> Some 0 \<longrightarrow>
      (\<not> truthy_str (member_id td) \<or> amount td = None
         \<or> \<not> truthy_str (payment_method td) \<or> \<not> truthy_str (transaction_date td) \<longrightarrow>
       (\<exists>ms. POST_transactions e st reqt = missing_response ms
         \<and> set ms \<subseteq> {''member_id'', ''amount'', ''payment_method'', ''transaction_date''}
         \<and> (''member_id'' \<in> set ms \<longleftrightarrow> \<not> truthy_str (member_id td))
         \<and> (''amount'' \<in> set ms \<longleftrightarrow> amount td = None)
         \<and> (''payment_method'' \<in> set ms \<longleftrightarrow> \<not> truthy_str (payment_method td))
         \<and> (''transaction_date'' \<in> set ms \<longleftrightarrow> \<not> truthy_str (transaction_date td))))
    \<and> (truthy_str (member_id td) \<and> (\<exists>a. amount td = Some a \<and> a < 0)
         \<and> truthy_str (payment_method td) \<and> truthy_str (transaction_date td) \<longrightarrow>
         POST_transactions e st reqt = (errorResponse ''Amount must be greater than 0'' 400, []))"
    using POST_transactions_validation [of e reqt td st] by (intro impI) (elim conjE)
qed

lemma post_plan_facts:
  "validateApiKey sample_env (post_plan b)" "json (post_plan b) = Some b"
  by (simp add: post_plan_def admin_key_valid, simp add: post_plan_def mk_request_def)

lemma post_payment_facts:
  "validateApiKey sample_env (post_payment b)" "json (post_payment b) = Some b"
  by (simp add: post_payment_def admin_key_valid, simp add: post_payment_def mk_request_def)

lemma sample_bodies:
  "truthy_str (first_name no_contact)" "truthy_str (last_name no_contact)"
  "\<not> truthy_str (phone no_contact)" "\<not> truthy_str (email no_contact)"
  "truthy_str (first_name abc_member)" "truthy_str (last_name abc_member)"
  "truthy_str (phone abc_member)" "truthy_str (email abc_member)"
  "test_value emailRegex (email abc_member)" "\<not> test_value phoneRegex (phone abc_member)"
  "field_truthy_str (name unpriced_plan)" "price unpriced_plan = Absent"
  "duration_days unpriced_plan = Given 30"
  "field_truthy_str (name negative_price)" "price negative_price = Given (- 1)"
  "duration_days negative_price = Given 30"
  "field_truthy_str (name negative_duration)" "price negative_duration = Given 10"
  "duration_days negative_duration = Given (- 1)"
  "truthy_str (member_id no_method)" "amount no_method = Some 50"
  "\<not> truthy_str (payment_method no_method)" "truthy_str (transaction_date no_method)"
  "truthy_str (member_id refund)" "amount refund = Some (- 5)"
  "truthy_str (payment_method refund)" "truthy_str (transaction_date refund)"
  by code_simp+

theorem create_validation_first_violation_witness:
  "(\<exists>ms. POST_members sample_env quiet_store (post_member no_contact) = missing_response ms
       \<and> set ms \<subseteq> {''first_name'', ''last_name'', ''phone'', ''email''}
       \<and> ''first_name'' \<notin> set ms \<and> ''last_name'' \<notin> set ms
       \<and> ''phone'' \<in> set ms \<and> ''email'' \<in> set ms)
   \<and> POST_members sample_env quiet_store (post_member bad_email_and_phone)
     = (errorResponse ''Invalid email format'' 400, [])
   \<and> POST_members sample_env quiet_store (post_member abc_member)
     = (errorResponse ''Invalid phone format'' 400, [])
   \<and> (\<exists>ms. POST_pricing_plans sample_env quiet_store (post_plan unpriced_plan) = missing_response ms
       \<and> set ms \<subseteq> {''name'', ''price'', ''duration_days''}
       \<and> ''name'' \<notin> set ms \<and> ''price'' \<in> set ms \<and> ''duration_days'' \<notin> set ms)
   \<and> POST_pricing_plans sample_env quiet_store (post_plan negative_price)
     = (errorResponse ''Price must be greater than 0'' 400, [])
   \<and> POST_pricing_plans sample_env quiet_store (post_plan negative_duration)
     = (errorResponse ''Duration days must be greater than 0'' 400, [])
   \<and> (\<exists>ms. POST_transactions sample_env quiet_store (post_payment no_method) = missing_response ms
       \<and> set ms \<subseteq> {''member_id'', ''amount'', ''payment_method'', ''transaction_date''}
       \<and> ''member_id'' \<notin> set ms \<and> ''amount'' \<notin> set ms
       \<and> ''payment_method'' \<in> set ms \<and> ''transaction_date'' \<notin> set ms)
   \<and> POST_transactions sample_env quiet_store (post_payment refund)
     = (errorResponse ''Amount must be greater than 0'' 400, [])"
proof -
  note one = create_validation_first_violation [where e = sample_env and st = quiet_store
        and reqm = "post_member no_contact" and m = no_contact
        and reqp = "post_plan unpriced_plan" and pl = unpriced_plan
        and reqt = "post_payment no_method" and td = no_method]
  note two = create_validation_first_violation [where e = sample_env and st = quiet_store
        and reqm = "post_member bad_email_and_phone" and m = bad_email_and_phone
        and reqp = "post_plan negative_price" and pl = negative_price
        and reqt = "post_payment refund" and td = refund]
  note three = create_validation_first_violation [where e = sample_env and st = quiet_store
        and reqm = "post_member abc_member" and m = abc_member
        and reqp = "post_plan negative_duration" and pl = negative_duration
        and reqt = "post_payment refund" and td = refund]
  have a: "\<exists>ms. POST_members sample_env quiet_store (post_member no_contact) = missing_response ms
       \<and> set ms \<subseteq> {''first_name'', ''last_name'', ''phone'', ''email''}
       \<and> ''first_name'' \<notin> set ms \<and> ''last_name'' \<notin> set ms
       \<and> ''phone'' \<in> set ms \<and> ''email'' \<in> set ms"
    using one post_member_facts sample_bodies by simp
  have b: "POST_members sample_env quiet_store (post_member bad_email_and_phone)
     = (errorResponse ''Invalid email format'' 400, [])"
    using two post_member_facts bad_email_and_phone_invalid by simp
  have c: "POST_members sample_env quiet_store (post_member abc_member)
     = (errorResponse ''Invalid phone format'' 400, [])"
    using three post_member_facts sample_bodies by simp
  have d: "\<exists>ms. POST_pricing_plans sample_env quiet_store (post_plan unpriced_plan) = missing_response ms
       \<and> set ms \<subseteq> {''name'', ''price'', ''duration_days''}
       \<and> ''name'' \<notin> set ms \<and> ''price'' \<in> set ms \<and> ''duration_days'' \<notin> set ms"
    using one post_plan_facts sample_bodies by simp
  have e: "POST_pricing_plans sample_env quiet_store (post_plan negative_price)
     = (errorResponse ''Price must be greater than 0'' 400, [])"
    using two post_plan_facts sample_bodies by simp
  have f: "POST_pricing_plans sample_env quiet_store (post_plan negative_duration)
     = (errorResponse ''Duration days must be greater than 0'' 400, [])"
    using three post_plan_facts sample_bodies by simp
  have g: "\<exists>ms. POST_transactions sample_env quiet_store (post_payment no_method) = missing_response ms
       \<and> set ms \<subseteq> {''member_id'', ''amount'', ''payment_method'', ''transaction_date''}
       \<and> ''member_id'' \<notin> set ms \<and> ''amount'' \<notin> set ms
       \<and> ''payment_method'' \<in> set ms \<and> ''transaction_date'' \<notin> set ms"
    using one post_payment_facts sample_bodies by simp
  have h: "POST_transactions sample_env quiet_store (post_payment refund)
     = (errorResponse ''Amount must be greater than 0'' 400, [])"
    using two post_payment_facts sample_bodies by simp
  from a b c d e f g h show ?thesis by (intro conjI)
qed

end
